theory Spec2Isabelle
  imports Complex_Main "HOL-Library.Word"
begin

section \<open>Progressive reveal: the exposure computation\<close>

text \<open>
  The four grid variants of the repository share one shape.  The two catalogue grids
  (\<open>VirtualDoubanGrid\<close>, exact and buffered row count) are backed by a remote paginated
  source and receive \<open>isLoadingMore\<close>, \<open>hasMore\<close> and \<open>onLoadMore\<close> as props; the two
  search grids (\<open>VirtualSearchGrid\<close>, the earlier one without a cancellable timer and the
  current one) own \<open>isLoadingMore\<close> themselves and have no remote source.
  Counts are natural numbers: \<open>visibleItemCount\<close> starts at a positive constant and
  is only ever replaced by \<open>Math.min(prev + batch, length)\<close>.
\<close>

record 'a exposure =
  displayItemCount :: nat
  displayData :: "'a list"
  hasNextPage :: bool

definition DOUBAN_INITIAL_BATCH_SIZE :: nat where
  "DOUBAN_INITIAL_BATCH_SIZE = 16"

definition DOUBAN_LOAD_MORE_BATCH_SIZE :: nat where
  "DOUBAN_LOAD_MORE_BATCH_SIZE = 16"

definition SEARCH_INITIAL_BATCH_SIZE :: nat where
  "SEARCH_INITIAL_BATCH_SIZE = 12"

definition SEARCH_LOAD_MORE_BATCH_SIZE :: nat where
  "SEARCH_LOAD_MORE_BATCH_SIZE = 8"

definition LOAD_MORE_THRESHOLD :: nat where
  "LOAD_MORE_THRESHOLD = 5"

text \<open>The \<open>useMemo\<close> block of \<open>VirtualDoubanGrid\<close>; \<open>slice(0, n)\<close> is \<open>take n\<close>.\<close>

definition douban_exposure :: "nat \<Rightarrow> 'a list \<Rightarrow> bool \<Rightarrow> 'a exposure" where
  "douban_exposure visibleItemCount doubanData hasMore =
     (let itemCount = min visibleItemCount (length doubanData);
          data = take itemCount doubanData;
          hasNext = (itemCount < length doubanData \<or> hasMore)
      in \<lparr>displayItemCount = itemCount, displayData = data, hasNextPage = hasNext\<rparr>)"

text \<open>
  The search grid picks its data by view mode.  An element of the grouped list is a pair
  of a key and the group's members, an element of the flat list a single result; the
  cell renderer casts by view mode, so the model tags each element.
\<close>

datatype viewMode = Agg | All

datatype 'a entry = GroupEntry string "'a list" | SingleEntry 'a

definition currentData ::
  "viewMode \<Rightarrow> (string \<times> 'a list) list \<Rightarrow> 'a list \<Rightarrow> 'a entry list" where
  "currentData vm filteredAggResults filteredResults =
     (if vm = Agg then map (\<lambda>(k, g). GroupEntry k g) filteredAggResults
      else map SingleEntry filteredResults)"

definition search_exposure :: "nat \<Rightarrow> 'e list \<Rightarrow> 'e exposure" where
  "search_exposure visibleItemCount data =
     (let total = length data;
          itemCount = min visibleItemCount total;
          slicedData = take itemCount data;
          hasNext = (itemCount < total)
      in \<lparr>displayItemCount = itemCount, displayData = slicedData, hasNextPage = hasNext\<rparr>)"

section \<open>Window geometry\<close>

text \<open>
  \<open>Math.ceil(a / b)\<close> on non-negative integers.  With \<open>b = 0\<close> the quotient is
  \<open>Infinity\<close> or \<open>NaN\<close>, which is no row count: the model returns \<open>None\<close> there.
\<close>

definition ceilDiv :: "nat \<Rightarrow> nat \<Rightarrow> nat option" where
  "ceilDiv a b = (if b = 0 then None else Some ((a + b - 1) div b))"

text \<open>Exact policy: the first catalogue grid and the earlier search grid.\<close>

definition rowCount_exact :: "nat \<Rightarrow> nat \<Rightarrow> nat option" where
  "rowCount_exact itemCount columnCount =
     map_option (max 1) (ceilDiv itemCount columnCount)"

text \<open>
  Buffered policy: the second catalogue grid (50 buffer items) and the current search
  grid (30 buffer items).
\<close>

definition rowCount_buffered :: "nat \<Rightarrow> nat \<Rightarrow> nat \<Rightarrow> nat option" where
  "rowCount_buffered bufferItems itemCount columnCount =
     (case ceilDiv itemCount columnCount of
        None \<Rightarrow> None
      | Some actualRows \<Rightarrow>
          (case ceilDiv bufferItems columnCount of
             None \<Rightarrow> None
           | Some bufferRows \<Rightarrow> Some (max 1 (actualRows + bufferRows))))"

definition DOUBAN_BUFFER_ITEMS :: nat where
  "DOUBAN_BUFFER_ITEMS = 50"

definition SEARCH_BUFFER_ITEMS :: nat where
  "SEARCH_BUFFER_ITEMS = 30"

section \<open>Cell resolver\<close>

text \<open>
  Reading \<open>displayData[index]\<close> past the end of a JavaScript array yields
  \<open>undefined\<close>, which the renderer tests with \<open>!item\<close>.
\<close>

definition item_at :: "'a list \<Rightarrow> nat \<Rightarrow> 'a option" where
  "item_at xs i = (if i < length xs then Some (xs ! i) else None)"

text \<open>A cell is either the empty \<open>div\<close> that only occupies its slot, or a card.\<close>

datatype 'c cell = Placeholder | Card 'c

datatype cardType = Movie | Tv

datatype gridType = TypeMovie | TypeTv | TypeShow | TypeAnime

record doubanItem =
  di_id :: string
  di_title :: string
  di_poster :: string
  di_year :: string
  di_rate :: string

record doubanCard =
  dc_id :: string
  dc_title :: string
  dc_poster :: string
  dc_year :: string
  dc_douban_id :: string
  dc_type :: cardType
  dc_rate :: string

text \<open>
  \<open>CellComponent\<close> of the catalogue grid.  The item count and the data reach it by
  different routes (a prop and a mutable ref), so they are separate arguments.
\<close>

definition douban_CellComponent ::
  "gridType \<Rightarrow> nat \<Rightarrow> nat \<Rightarrow> doubanItem list \<Rightarrow> nat \<Rightarrow> nat \<Rightarrow> doubanCard cell" where
  "douban_CellComponent cellType cellColumnCount cellDisplayItemCount cellDisplayData
       rowIndex columnIndex =
     (let index = rowIndex * cellColumnCount + columnIndex in
      if index \<ge> cellDisplayItemCount then Placeholder
      else (case item_at cellDisplayData index of
              None \<Rightarrow> Placeholder
            | Some item \<Rightarrow>
                Card \<lparr>dc_id = di_id item, dc_title = di_title item, dc_poster = di_poster item,
                      dc_year = di_year item, dc_douban_id = di_id item,
                      dc_type = (if cellType = TypeMovie then Movie else Tv),
                      dc_rate = di_rate item\<rparr>))"

record searchResult =
  sr_id :: string
  sr_title :: string
  sr_poster :: string
  sr_episodes :: "string list"
  sr_source :: string
  sr_source_name :: string
  sr_douban_id :: "nat option"
  sr_year :: string

record groupStats =
  episodes :: nat
  source_names :: "string list"
  douban_id :: "nat option"

record searchCard =
  sc_groupKey :: "string option"
  sc_isAggregate :: bool
  sc_id :: string
  sc_title :: string
  sc_poster :: string
  sc_year :: string
  sc_episodes :: nat
  sc_source :: string
  sc_source_name :: string
  sc_source_names :: "string list"
  sc_douban_id :: "nat option"
  sc_query :: string
  sc_type :: cardType

text \<open>
  \<open>String.prototype.trim\<close>.  A string is its sequence of UTF-8 bytes.  The characters
  that \<open>trim\<close> strips are the white space and line terminator code points of
  ECMAScript, listed here by their encodings: U+0009 to U+000D, U+0020, U+00A0, U+1680,
  U+2000 to U+200A, U+2028, U+2029, U+202F, U+205F, U+3000 and U+FEFF.
\<close>

definition whiteSpace :: "string list" where
  "whiteSpace =
     [[CHR 0x09], [CHR 0x0A], [CHR 0x0B], [CHR 0x0C], [CHR 0x0D], [CHR 0x20],
      [CHR 0xC2, CHR 0xA0],
      [CHR 0xE1, CHR 0x9A, CHR 0x80]]
     @ map (\<lambda>b. [CHR 0xE2, CHR 0x80, b])
         [CHR 0x80, CHR 0x81, CHR 0x82, CHR 0x83, CHR 0x84, CHR 0x85, CHR 0x86, CHR 0x87,
          CHR 0x88, CHR 0x89, CHR 0x8A, CHR 0xA8, CHR 0xA9, CHR 0xAF]
     @ [[CHR 0xE2, CHR 0x81, CHR 0x9F],
        [CHR 0xE3, CHR 0x80, CHR 0x80],
        [CHR 0xEF, CHR 0xBB, CHR 0xBF]]"

text \<open>Remove from the front of \<open>s\<close> every leading occurrence of one of the sequences \<open>ws\<close>.\<close>

function stripLeading :: "string list \<Rightarrow> string \<Rightarrow> string" where
  "stripLeading ws s =
     (case List.find (\<lambda>w. w \<noteq> [] \<and> take (length w) s = w) ws of
        None \<Rightarrow> s
      | Some w \<Rightarrow> stripLeading ws (drop (length w) s))"
  by pat_completeness auto
termination
proof (relation "measure (\<lambda>(ws, s). length s)")
  show "wf (measure (\<lambda>(ws, s). length s))" by simp
next
  fix ws :: "string list" and s w :: string
  assume "List.find (\<lambda>w. w \<noteq> [] \<and> take (length w) s = w) ws = Some w"
  hence w: "w \<noteq> []" "take (length w) s = w"
    by (auto simp add: find_Some_iff)
  have "length (take (length w) s) = min (length s) (length w)"
    by (rule length_take)
  with w(2) have "length w \<le> length s"
    by simp
  with w have "length (drop (length w) s) < length s"
    by (cases w) auto
  thus "((ws, drop (length w) s), (ws, s)) \<in> measure (\<lambda>(ws, s). length s)"
    by simp
qed

declare stripLeading.simps [simp del]

text \<open>
  A trailing white space character is a leading one of the reversed byte sequence, its
  encoding reversed; UTF-8 is self-synchronising, so no other character ends in such
  bytes.
\<close>

definition trim :: "string \<Rightarrow> string" where
  "trim s = rev (stripLeading (map rev whiteSpace) (rev (stripLeading whiteSpace s)))"

text \<open>
  What one call of the search grid's \<open>CellComponent\<close> produces: the cell, the contents
  of \<open>groupStatsRef\<close> afterwards, and the groups \<open>computeGroupStats\<close> was called with.
\<close>

record cellResult =
  cr_cell :: "searchCard cell"
  cr_groupStats :: "string \<rightharpoonup> groupStats"
  cr_computed :: "searchResult list list"

text \<open>
  \<open>computeGroupStats\<close> is a prop of the grid and is taken as a parameter.  In grouped
  mode it is called before the cache is consulted, and the card is built from its
  result; the cache is written only when the key is not yet present.

  The renderer casts the item by view mode.  Destructuring a flat result as a pair, or
  reading \<open>episodes.length\<close> of a pair, throws a \<open>TypeError\<close>; the data handed to
  the renderer is built by \<open>currentData\<close> from the same view mode, which rules both out.
\<close>

datatype jsError = TypeError

definition search_CellComponent ::
  "(searchResult list \<Rightarrow> groupStats) \<Rightarrow> viewMode \<Rightarrow> string \<Rightarrow> nat \<Rightarrow> nat \<Rightarrow>
   searchResult entry list \<Rightarrow> (string \<rightharpoonup> groupStats) \<Rightarrow> nat \<Rightarrow> nat \<Rightarrow>
   jsError + cellResult" where
  "search_CellComponent computeGroupStats vm searchQuery columnCount itemCount data
       groupStatsRef rowIndex columnIndex =
     (let index = rowIndex * columnCount + columnIndex in
      if index \<ge> itemCount then
        Inr \<lparr>cr_cell = Placeholder, cr_groupStats = groupStatsRef, cr_computed = []\<rparr>
      else (case item_at data index of
          None \<Rightarrow> Inr \<lparr>cr_cell = Placeholder, cr_groupStats = groupStatsRef, cr_computed = []\<rparr>
        | Some item \<Rightarrow>
           if vm = Agg then
             (case item of
                SingleEntry _ \<Rightarrow> Inl TypeError
              | GroupEntry mapKey grp \<Rightarrow>
                 (let title = (case grp of [] \<Rightarrow> '''' | g # _ \<Rightarrow> sr_title g);
                      poster = (case grp of [] \<Rightarrow> '''' | g # _ \<Rightarrow> sr_poster g);
                      year = (case grp of [] \<Rightarrow> ''unknown''
                              | g # _ \<Rightarrow> if sr_year g = '''' then ''unknown'' else sr_year g);
                      stats = computeGroupStats grp;
                      type = (if episodes stats = 1 then Movie else Tv);
                      ref' = (if groupStatsRef mapKey = None then groupStatsRef(mapKey \<mapsto> stats)
                              else groupStatsRef)
                  in Inr \<lparr>cr_cell = Card \<lparr>sc_groupKey = Some mapKey, sc_isAggregate = True,
                           sc_id = '''', sc_title = title, sc_poster = poster, sc_year = year,
                           sc_episodes = episodes stats, sc_source = '''', sc_source_name = '''',
                           sc_source_names = source_names stats, sc_douban_id = douban_id stats,
                           sc_query = (if trim searchQuery \<noteq> title then trim searchQuery
                                       else ''''),
                           sc_type = type\<rparr>,
                         cr_groupStats = ref', cr_computed = [grp]\<rparr>))
           else
             (case item of
                GroupEntry _ _ \<Rightarrow> Inl TypeError
              | SingleEntry searchItem \<Rightarrow>
                 Inr \<lparr>cr_cell = Card \<lparr>sc_groupKey = None, sc_isAggregate = False,
                        sc_id = sr_id searchItem, sc_title = sr_title searchItem,
                        sc_poster = sr_poster searchItem, sc_year = sr_year searchItem,
                        sc_episodes = length (sr_episodes searchItem),
                        sc_source = sr_source searchItem,
                        sc_source_name = sr_source_name searchItem,
                        sc_source_names = [], sc_douban_id = sr_douban_id searchItem,
                        sc_query = (if trim searchQuery \<noteq> sr_title searchItem
                                    then trim searchQuery else ''''),
                        sc_type = (if length (sr_episodes searchItem) > 1 then Tv else Movie)\<rparr>,
                      cr_groupStats = groupStatsRef, cr_computed = []\<rparr>)))"

text \<open>A concrete statistics function, used to run the resolver on sample inputs.\<close>

definition sampleStats :: "searchResult list \<Rightarrow> groupStats" where
  "sampleStats g =
     \<lparr>episodes = length g, source_names = map sr_source_name g, douban_id = None\<rparr>"


section \<open>The spider jar provider\<close>

type_synonym byte = "8 word"

text \<open>
  What \<open>fetch\<close> can do for one URL: reject (network error, abort by the timeout), or
  resolve to a response with its \<open>ok\<close> flag, status and body; reading the body can
  itself reject.
\<close>

datatype bodyOutcome = BodyThrows | Body "byte list"

datatype fetchOutcome = FetchThrows | Response bool nat bodyOutcome

text \<open>\<open>fetchRemote\<close>: every rejection is caught and becomes \<open>null\<close>.\<close>

definition fetchRemote :: "fetchOutcome \<Rightarrow> byte list option" where
  "fetchRemote outcome =
     (case outcome of
        FetchThrows \<Rightarrow> None
      | Response ok status body \<Rightarrow>
          if \<not> ok \<or> status \<ge> 400 then None
          else (case body of
                  BodyThrows \<Rightarrow> None
                | Body ab \<Rightarrow> if length ab < 1000 then None else Some ab))"

definition CANDIDATES :: "string list" where
  "CANDIDATES =
     [''https://gitcode.net/qq_26898231/TVBox/-/raw/main/JAR/XC.jar'',
      ''https://gitee.com/q215613905/TVBoxOS/raw/main/JAR/XC.jar'',
      ''https://cdn.jsdelivr.net/gh/hjdhnx/dr_py@main/js/drpy.jar'',
      ''https://cdn.jsdelivr.net/gh/FongMi/CatVodSpider@main/jar/spider.jar'',
      ''https://raw.githubusercontent.com/hjdhnx/dr_py/main/js/drpy.jar'',
      ''https://raw.githubusercontent.com/FongMi/CatVodSpider/main/jar/spider.jar'',
      ''https://ghproxy.com/https://raw.githubusercontent.com/hjdhnx/dr_py/main/js/drpy.jar'']"

definition TTL :: int where
  "TTL = 6 * 60 * 60 * 1000"

record spiderJarInfo =
  jar_buffer :: "byte list"
  jar_md5 :: string
  jar_source :: string
  jar_success :: bool
  jar_cached :: bool
  jar_timestamp :: int
  jar_size :: nat
  jar_tried :: nat

text \<open>
  The result of one call: the returned info, the module-level \<open>cache\<close> afterwards, and
  the URLs that were fetched, in the order of the requests.
\<close>

record jarResult =
  jr_info :: spiderJarInfo
  jr_cache :: "spiderJarInfo option"
  jr_fetched :: "string list"

text \<open>
  The \<open>for\<close> loop over the candidates.  The hash function, the network and the clock
  reading are parameters; \<open>tried\<close> is the loop's counter.  The result is the info of
  the first accepted candidate, if any, with the final counter and the URLs requested.
\<close>

fun probe ::
  "(byte list \<Rightarrow> string) \<Rightarrow> (string \<Rightarrow> fetchOutcome) \<Rightarrow> int \<Rightarrow> nat \<Rightarrow> string list \<Rightarrow>
   spiderJarInfo option \<times> nat \<times> string list" where
  "probe md5 net now tried [] = (None, tried, [])"
| "probe md5 net now tried (url # rest) =
     (case fetchRemote (net url) of
        Some buf \<Rightarrow>
          (Some \<lparr>jar_buffer = buf, jar_md5 = md5 buf, jar_source = url, jar_success = True,
                 jar_cached = False, jar_timestamp = now, jar_size = length buf,
                 jar_tried = tried + 1\<rparr>,
           tried + 1, [url])
      | None \<Rightarrow>
          (case probe md5 net now (tried + 1) rest of
             (r, t, fetched) \<Rightarrow> (r, t, url # fetched)))"

text \<open>
  \<open>getSpiderJar\<close>.  The decoded bytes of the embedded fallback jar are a parameter
  (\<open>fb\<close>), as is the hash function.
\<close>

definition getSpiderJar ::
  "(byte list \<Rightarrow> string) \<Rightarrow> byte list \<Rightarrow> (string \<Rightarrow> fetchOutcome) \<Rightarrow> int \<Rightarrow> bool \<Rightarrow>
   spiderJarInfo option \<Rightarrow> jarResult" where
  "getSpiderJar md5 fb net now forceRefresh cache =
     (case (if forceRefresh then None
            else (case cache of
                    None \<Rightarrow> None
                  | Some c \<Rightarrow> if now - jar_timestamp c < TTL then Some c else None)) of
        Some c \<Rightarrow> \<lparr>jr_info = c\<lparr>jar_cached := True\<rparr>, jr_cache = cache, jr_fetched = []\<rparr>
      | None \<Rightarrow>
          (case probe md5 net now 0 CANDIDATES of
             (Some info, t, fetched) \<Rightarrow>
               \<lparr>jr_info = info, jr_cache = Some info, jr_fetched = fetched\<rparr>
           | (None, tried, fetched) \<Rightarrow>
               (let info = \<lparr>jar_buffer = fb, jar_md5 = md5 fb, jar_source = ''fallback'',
                            jar_success = False, jar_cached = False, jar_timestamp = now,
                            jar_size = length fb, jar_tried = tried\<rparr>
                in \<lparr>jr_info = info, jr_cache = Some info, jr_fetched = fetched\<rparr>)))"

text \<open>Sample environments, used to run \<open>getSpiderJar\<close> on concrete inputs.\<close>

definition sampleMd5 :: "byte list \<Rightarrow> string" where
  "sampleMd5 buf = (if buf = [] then ''d41d8cd98f00b204e9800998ecf8427e'' else ''00'')"

definition deadNet :: "string \<Rightarrow> fetchOutcome" where
  "deadNet url = FetchThrows"

definition sampleNet :: "string \<Rightarrow> fetchOutcome" where
  "sampleNet url =
     (if url = ''https://gitcode.net/qq_26898231/TVBox/-/raw/main/JAR/XC.jar''
        then Response True 200 (Body (replicate 999 0))
      else if url = ''https://gitee.com/q215613905/TVBoxOS/raw/main/JAR/XC.jar''
        then Response True 200 (Body (replicate 1000 0))
      else FetchThrows)"

section \<open>The search grid as an event-driven machine\<close>

text \<open>
  What the callbacks created in one render close over.  \<open>memoizedOnCellsRendered\<close> and
  \<open>loadMoreItems\<close> are rebuilt whenever one of these values changes, so the callbacks
  handed out in a render see exactly that render's values, and a timer callback keeps
  seeing them however the state has moved on when it fires.
\<close>

record search_render =
  r_isLoadingMore :: bool
  r_hasNextPage :: bool
  r_totalItemCount :: nat
  r_displayItemCount :: nat
  r_columnCount :: nat

text \<open>
  The two kinds of timer callback: the arrow function scheduled by
  \<open>memoizedOnCellsRendered\<close> (with the render it closes over) and the one scheduled by
  \<open>loadMoreItems\<close> (which closes over \<open>totalItemCount\<close> only).
\<close>

datatype search_callback = DebounceCb search_render | LoadCb nat

record search_timer =
  t_id :: nat
  t_deadline :: nat
  t_callback :: search_callback

text \<open>
  The component's state: the props that matter (\<open>currentData\<close>, already selected by
  view mode, and the column count of the layout hook), the two \<open>useState\<close> cells,
  \<open>debounceRef\<close>, and the pending timers of the event loop with the clock in
  milliseconds.  \<open>s_loadMoreCalls\<close> counts the invocations of \<open>loadMoreItems\<close>.
\<close>

record 'e search_state =
  s_data :: "'e list"
  s_columnCount :: nat
  s_visibleItemCount :: nat
  s_isLoadingMore :: bool
  s_debounceRef :: "nat option"
  s_timers :: "search_timer list"
  s_nextTimerId :: nat
  s_now :: nat
  s_loadMoreCalls :: nat

definition search_init :: "'e list \<Rightarrow> nat \<Rightarrow> 'e search_state" where
  "search_init data columnCount =
     \<lparr>s_data = data, s_columnCount = columnCount,
      s_visibleItemCount = SEARCH_INITIAL_BATCH_SIZE, s_isLoadingMore = False,
      s_debounceRef = None, s_timers = [], s_nextTimerId = 1, s_now = 0,
      s_loadMoreCalls = 0\<rparr>"

definition search_render_of :: "'e search_state \<Rightarrow> search_render" where
  "search_render_of st =
     (let e = search_exposure (s_visibleItemCount st) (s_data st)
      in \<lparr>r_isLoadingMore = s_isLoadingMore st, r_hasNextPage = hasNextPage e,
          r_totalItemCount = length (s_data st), r_displayItemCount = displayItemCount e,
          r_columnCount = s_columnCount st\<rparr>)"

text \<open>\<open>setTimeout\<close> appends a timer and hands out a fresh id; \<open>clearTimeout\<close> drops it.\<close>

definition search_setTimeout ::
  "search_callback \<Rightarrow> nat \<Rightarrow> 'e search_state \<Rightarrow> 'e search_state" where
  "search_setTimeout cb delay st =
     st\<lparr>s_timers := s_timers st @
            [\<lparr>t_id = s_nextTimerId st, t_deadline = s_now st + delay, t_callback = cb\<rparr>],
        s_nextTimerId := s_nextTimerId st + 1\<rparr>"

definition search_clearTimeout :: "nat \<Rightarrow> 'e search_state \<Rightarrow> 'e search_state" where
  "search_clearTimeout i st = st\<lparr>s_timers := filter (\<lambda>t. t_id t \<noteq> i) (s_timers st)\<rparr>"

text \<open>
  The reset effect: the two \<open>set\<close> calls that run after the commit of a render in which
  \<open>currentData\<close> or the view mode has changed.  It cancels no timer.
\<close>

definition search_resetEffect :: "'e search_state \<Rightarrow> 'e search_state" where
  "search_resetEffect st =
     st\<lparr>s_visibleItemCount := SEARCH_INITIAL_BATCH_SIZE, s_isLoadingMore := False\<rparr>"

text \<open>
  A change of the data source first commits a render with the new data and the state as
  it was, and the reset effect runs after that commit.  \<open>search_reset\<close> is that change
  with nothing happening in between.
\<close>

definition search_reset :: "'e list \<Rightarrow> 'e search_state \<Rightarrow> 'e search_state" where
  "search_reset newData st = search_resetEffect (st\<lparr>s_data := newData\<rparr>)"

text \<open>\<open>loadMoreItems\<close> of render \<open>r\<close>, called in state \<open>st\<close>.\<close>

definition search_loadMoreItems :: "search_render \<Rightarrow> 'e search_state \<Rightarrow> 'e search_state" where
  "search_loadMoreItems r st =
     (let st1 = st\<lparr>s_loadMoreCalls := s_loadMoreCalls st + 1\<rparr> in
      if r_isLoadingMore r \<or> \<not> r_hasNextPage r then st1
      else search_setTimeout (LoadCb (r_totalItemCount r)) 100 (st1\<lparr>s_isLoadingMore := True\<rparr>))"

text \<open>What a timer callback does when it fires.\<close>

definition search_callback_fires :: "search_callback \<Rightarrow> 'e search_state \<Rightarrow> 'e search_state" where
  "search_callback_fires cb st =
     (case cb of
        DebounceCb r \<Rightarrow>
          if \<not> r_isLoadingMore r \<and> r_hasNextPage r then search_loadMoreItems r st else st
      | LoadCb totalItemCount \<Rightarrow>
          st\<lparr>s_visibleItemCount :=
                min (s_visibleItemCount st + SEARCH_LOAD_MORE_BATCH_SIZE) totalItemCount,
             s_isLoadingMore := False\<rparr>)"

text \<open>
  \<open>rowStopIndex >= rows - LOAD_MORE_THRESHOLD\<close>, where the difference may be negative;
  a comparison with \<open>Infinity\<close> or \<open>NaN\<close> (no column) is false.
\<close>

definition nearEnd :: "nat \<Rightarrow> nat option \<Rightarrow> bool" where
  "nearEnd rowStopIndex rows =
     (case rows of
        None \<Rightarrow> False
      | Some n \<Rightarrow> int rowStopIndex \<ge> int n - int LOAD_MORE_THRESHOLD)"

text \<open>\<open>memoizedOnCellsRendered\<close> of the current search grid.\<close>

definition search_onCellsRendered :: "nat \<Rightarrow> 'e search_state \<Rightarrow> 'e search_state" where
  "search_onCellsRendered rowStopIndex st =
     (let r = search_render_of st;
          st1 = (case s_debounceRef st of
                   None \<Rightarrow> st
                 | Some i \<Rightarrow> search_clearTimeout i st);
          actualRowCount = ceilDiv (r_displayItemCount r) (r_columnCount r)
      in if nearEnd rowStopIndex actualRowCount \<and> r_hasNextPage r \<and> \<not> r_isLoadingMore r
         then (search_setTimeout (DebounceCb r) 150 st1)\<lparr>s_debounceRef := Some (s_nextTimerId st1)\<rparr>
         else st1)"

text \<open>
  \<open>memoizedOnCellsRendered\<close> of the earlier search grid: it compares with the exact
  row count, waits 100 ms, and keeps no handle on the timer.
\<close>

definition search0_onCellsRendered :: "nat \<Rightarrow> 'e search_state \<Rightarrow> 'e search_state" where
  "search0_onCellsRendered rowStopIndex st =
     (let r = search_render_of st;
          rowCount = rowCount_exact (r_displayItemCount r) (r_columnCount r)
      in if nearEnd rowStopIndex rowCount \<and> r_hasNextPage r \<and> \<not> r_isLoadingMore r
         then search_setTimeout (DebounceCb r) 100 st
         else st)"

text \<open>
  Events.  A change of the data source and a visible-range notification carry the time
  at which they happen; a timer fires at its deadline.  Of the pending timers the one
  with the earliest deadline fires next, the one scheduled first among equals.

  The grid can deliver a visible-range notification in the very commit that brings the
  new data, before the reset effect has run: the callback it calls belongs to the
  render with the new data and the old state.  \<open>SourceChangeNotified\<close> is a change of
  the data source with such a notification, \<open>SourceChange\<close> one without.
\<close>

datatype 'e search_event =
    SourceChange nat "'e list"
  | CellsRendered nat nat
  | TimerFires
  | SourceChangeNotified nat "'e list" nat

datatype searchVariant = Current | Earlier

fun earliest :: "search_timer list \<Rightarrow> search_timer option" where
  "earliest [] = None"
| "earliest (t # ts) =
     (case earliest ts of
        None \<Rightarrow> Some t
      | Some u \<Rightarrow> if t_deadline t \<le> t_deadline u then Some t else Some u)"

text \<open>
  An outside event at time \<open>t\<close> is possible when the clock has not passed \<open>t\<close> and no
  pending timer is due before \<open>t\<close>.
\<close>

definition search_enabled_at :: "nat \<Rightarrow> 'e search_state \<Rightarrow> bool" where
  "search_enabled_at t st =
     (s_now st \<le> t \<and> list_all (\<lambda>tm. t \<le> t_deadline tm) (s_timers st))"

text \<open>
  One step; \<open>None\<close> when the event cannot happen.  The grid, and with it the
  visible-range notification, exists only while there is data.
\<close>

definition search_step ::
  "searchVariant \<Rightarrow> 'e search_state \<Rightarrow> 'e search_event \<Rightarrow> 'e search_state option" where
  "search_step variant st ev =
     (case ev of
        SourceChange t newData \<Rightarrow>
          if search_enabled_at t st then Some (search_reset newData (st\<lparr>s_now := t\<rparr>)) else None
      | CellsRendered t rowStopIndex \<Rightarrow>
          if search_enabled_at t st \<and> s_data st \<noteq> [] then
            Some (if variant = Current then search_onCellsRendered rowStopIndex (st\<lparr>s_now := t\<rparr>)
                  else search0_onCellsRendered rowStopIndex (st\<lparr>s_now := t\<rparr>))
          else None
      | TimerFires \<Rightarrow>
          (case earliest (s_timers st) of
             None \<Rightarrow> None
           | Some tm \<Rightarrow>
               Some (search_callback_fires (t_callback tm)
                       (search_clearTimeout (t_id tm)
                          (st\<lparr>s_now := max (s_now st) (t_deadline tm)\<rparr>))))
      | SourceChangeNotified t newData rowStopIndex \<Rightarrow>
          if search_enabled_at t st \<and> newData \<noteq> [] then
            Some (search_resetEffect
                    (if variant = Current
                     then search_onCellsRendered rowStopIndex (st\<lparr>s_now := t, s_data := newData\<rparr>)
                     else search0_onCellsRendered rowStopIndex (st\<lparr>s_now := t, s_data := newData\<rparr>)))
          else None)"

fun search_run ::
  "searchVariant \<Rightarrow> 'e search_state \<Rightarrow> 'e search_event list \<Rightarrow> 'e search_state option" where
  "search_run variant st [] = Some st"
| "search_run variant st (ev # evs) =
     (case search_step variant st ev of
        None \<Rightarrow> None
      | Some st' \<Rightarrow> search_run variant st' evs)"

section \<open>The catalogue grid as an event-driven machine\<close>

text \<open>
  The catalogue grid is backed by a remote paginated source.  \<open>doubanData\<close>,
  \<open>isLoadingMore\<close> and \<open>hasMore\<close> are props owned by the parent, and the remote fetch is
  the callback \<open>onLoadMore\<close>; the grid owns \<open>visibleItemCount\<close> only.
\<close>

record douban_render =
  dr_isLoadingMore :: bool
  dr_hasNextPage :: bool
  dr_displayItemCount :: nat
  dr_dataLength :: nat
  dr_hasMore :: bool
  dr_rowCount :: "nat option"

record douban_timer =
  dt_id :: nat
  dt_deadline :: nat
  dt_callback :: douban_render

text \<open>
  \<open>d_loadMoreCalls\<close> counts the invocations of \<open>loadMoreItems\<close>, \<open>d_onLoadMoreCalls\<close>
  those of the remote fetch callback.
\<close>

record 'a douban_state =
  d_doubanData :: "'a list"
  d_isLoadingMore :: bool
  d_hasMore :: bool
  d_columnCount :: nat
  d_visibleItemCount :: nat
  d_debounceRef :: "nat option"
  d_timers :: "douban_timer list"
  d_nextTimerId :: nat
  d_now :: nat
  d_loadMoreCalls :: nat
  d_onLoadMoreCalls :: nat

definition douban_init :: "'a list \<Rightarrow> bool \<Rightarrow> bool \<Rightarrow> nat \<Rightarrow> 'a douban_state" where
  "douban_init doubanData isLoadingMore hasMore columnCount =
     \<lparr>d_doubanData = doubanData, d_isLoadingMore = isLoadingMore, d_hasMore = hasMore,
      d_columnCount = columnCount, d_visibleItemCount = DOUBAN_INITIAL_BATCH_SIZE,
      d_debounceRef = None, d_timers = [], d_nextTimerId = 1, d_now = 0,
      d_loadMoreCalls = 0, d_onLoadMoreCalls = 0\<rparr>"

definition douban_render_of :: "'a douban_state \<Rightarrow> douban_render" where
  "douban_render_of st =
     (let e = douban_exposure (d_visibleItemCount st) (d_doubanData st) (d_hasMore st)
      in \<lparr>dr_isLoadingMore = d_isLoadingMore st, dr_hasNextPage = hasNextPage e,
          dr_displayItemCount = displayItemCount e, dr_dataLength = length (d_doubanData st),
          dr_hasMore = d_hasMore st,
          dr_rowCount = rowCount_exact (displayItemCount e) (d_columnCount st)\<rparr>)"

definition douban_setTimeout ::
  "douban_render \<Rightarrow> nat \<Rightarrow> 'a douban_state \<Rightarrow> 'a douban_state" where
  "douban_setTimeout cb delay st =
     st\<lparr>d_timers := d_timers st @
            [\<lparr>dt_id = d_nextTimerId st, dt_deadline = d_now st + delay, dt_callback = cb\<rparr>],
        d_nextTimerId := d_nextTimerId st + 1\<rparr>"

definition douban_clearTimeout :: "nat \<Rightarrow> 'a douban_state \<Rightarrow> 'a douban_state" where
  "douban_clearTimeout i st = st\<lparr>d_timers := filter (\<lambda>t. dt_id t \<noteq> i) (d_timers st)\<rparr>"

text \<open>\<open>loadMoreItems\<close> of render \<open>r\<close>, called in state \<open>st\<close>.\<close>

definition douban_loadMoreItems :: "douban_render \<Rightarrow> 'a douban_state \<Rightarrow> 'a douban_state" where
  "douban_loadMoreItems r st =
     (let st1 = st\<lparr>d_loadMoreCalls := d_loadMoreCalls st + 1\<rparr> in
      if dr_isLoadingMore r then st1
      else if dr_displayItemCount r < dr_dataLength r then
        st1\<lparr>d_visibleItemCount :=
              min (d_visibleItemCount st1 + DOUBAN_LOAD_MORE_BATCH_SIZE) (dr_dataLength r)\<rparr>
      else if dr_hasMore r \<and> \<not> dr_isLoadingMore r then
        st1\<lparr>d_onLoadMoreCalls := d_onLoadMoreCalls st1 + 1\<rparr>
      else st1)"

definition douban_callback_fires :: "douban_render \<Rightarrow> 'a douban_state \<Rightarrow> 'a douban_state" where
  "douban_callback_fires r st =
     (if \<not> dr_isLoadingMore r \<and> dr_hasNextPage r then douban_loadMoreItems r st else st)"

definition douban_onCellsRendered :: "nat \<Rightarrow> 'a douban_state \<Rightarrow> 'a douban_state" where
  "douban_onCellsRendered rowStopIndex st =
     (let r = douban_render_of st;
          st1 = (case d_debounceRef st of
                   None \<Rightarrow> st
                 | Some i \<Rightarrow> douban_clearTimeout i st)
      in if nearEnd rowStopIndex (dr_rowCount r) \<and> dr_hasNextPage r \<and> \<not> dr_isLoadingMore r
         then (douban_setTimeout r 150 st1)\<lparr>d_debounceRef := Some (d_nextTimerId st1)\<rparr>
         else st1)"

text \<open>
  The parent passes new props.  A new \<open>doubanData\<close> array (\<open>Some\<close>) triggers the reset
  effect; the flags can change with the array left as it is (\<open>None\<close>).  The render with
  the new array is committed with the old \<open>visibleItemCount\<close>, and the reset effect
  (\<open>douban_resetEffect\<close>) runs after that commit; \<open>douban_props\<close> is the change with
  nothing happening in between.
\<close>

definition douban_resetEffect :: "'a douban_state \<Rightarrow> 'a douban_state" where
  "douban_resetEffect st = st\<lparr>d_visibleItemCount := DOUBAN_INITIAL_BATCH_SIZE\<rparr>"

definition douban_props ::
  "'a list option \<Rightarrow> bool \<Rightarrow> bool \<Rightarrow> 'a douban_state \<Rightarrow> 'a douban_state" where
  "douban_props newData isLoadingMore hasMore st =
     (case newData of
        None \<Rightarrow> st\<lparr>d_isLoadingMore := isLoadingMore, d_hasMore := hasMore\<rparr>
      | Some xs \<Rightarrow>
          douban_resetEffect
            (st\<lparr>d_doubanData := xs, d_isLoadingMore := isLoadingMore, d_hasMore := hasMore\<rparr>))"

text \<open>
  \<open>PropsNotified\<close> is the arrival of a new array with a visible-range notification
  delivered in the same commit, before the reset effect has run.
\<close>

datatype 'a douban_event =
    Props nat "'a list option" bool bool
  | DoubanCellsRendered nat nat
  | DoubanTimerFires
  | PropsNotified nat "'a list" bool bool nat

fun douban_earliest :: "douban_timer list \<Rightarrow> douban_timer option" where
  "douban_earliest [] = None"
| "douban_earliest (t # ts) =
     (case douban_earliest ts of
        None \<Rightarrow> Some t
      | Some u \<Rightarrow> if dt_deadline t \<le> dt_deadline u then Some t else Some u)"

definition douban_enabled_at :: "nat \<Rightarrow> 'a douban_state \<Rightarrow> bool" where
  "douban_enabled_at t st =
     (d_now st \<le> t \<and> list_all (\<lambda>tm. t \<le> dt_deadline tm) (d_timers st))"

definition douban_step :: "'a douban_state \<Rightarrow> 'a douban_event \<Rightarrow> 'a douban_state option" where
  "douban_step st ev =
     (case ev of
        Props t newData isLoadingMore hasMore \<Rightarrow>
          if douban_enabled_at t st
          then Some (douban_props newData isLoadingMore hasMore (st\<lparr>d_now := t\<rparr>))
          else None
      | DoubanCellsRendered t rowStopIndex \<Rightarrow>
          if douban_enabled_at t st \<and> d_doubanData st \<noteq> []
          then Some (douban_onCellsRendered rowStopIndex (st\<lparr>d_now := t\<rparr>))
          else None
      | DoubanTimerFires \<Rightarrow>
          (case douban_earliest (d_timers st) of
             None \<Rightarrow> None
           | Some tm \<Rightarrow>
               Some (douban_callback_fires (dt_callback tm)
                       (douban_clearTimeout (dt_id tm)
                          (st\<lparr>d_now := max (d_now st) (dt_deadline tm)\<rparr>))))
      | PropsNotified t xs isLoadingMore hasMore rowStopIndex \<Rightarrow>
          if douban_enabled_at t st \<and> xs \<noteq> [] then
            Some (douban_resetEffect
                    (douban_onCellsRendered rowStopIndex
                       (st\<lparr>d_now := t, d_doubanData := xs, d_isLoadingMore := isLoadingMore,
                           d_hasMore := hasMore\<rparr>)))
          else None)"

fun douban_run :: "'a douban_state \<Rightarrow> 'a douban_event list \<Rightarrow> 'a douban_state option" where
  "douban_run st [] = Some st"
| "douban_run st (ev # evs) =
     (case douban_step st ev of
        None \<Rightarrow> None
      | Some st' \<Rightarrow> douban_run st' evs)"

section \<open>Consistency of the pending timers with the current data source\<close>

text \<open>An event that leaves the data source as it is.\<close>

fun keepsSource :: "'e search_event \<Rightarrow> bool" where
  "keepsSource (SourceChange t newData) = False"
| "keepsSource (CellsRendered t rowStopIndex) = True"
| "keepsSource TimerFires = True"
| "keepsSource (SourceChangeNotified t newData rowStopIndex) = False"

text \<open>
  Every pending timer was scheduled under the current data source: a load timer holds
  the current length, and so does the render of a pending deferred call; and a timer
  that can still lead to a reveal is pending only while the revealed count does not
  exceed that length.
\<close>

definition search_timer_ok :: "'e search_state \<Rightarrow> search_timer \<Rightarrow> bool" where
  "search_timer_ok st tm =
     (case t_callback tm of
        LoadCb totalItemCount \<Rightarrow>
          totalItemCount = length (s_data st) \<and> s_visibleItemCount st \<le> length (s_data st)
      | DebounceCb r \<Rightarrow>
          r_totalItemCount r = length (s_data st)
          \<and> (r_hasNextPage r \<longrightarrow> s_visibleItemCount st \<le> length (s_data st)))"

definition search_inv :: "'e search_state \<Rightarrow> bool" where
  "search_inv st = list_all (search_timer_ok st) (s_timers st)"




text \<open>
  The deferred calls among the pending timers, and the discipline of the current search
  grid: every pending deferred call is the one \<open>debounceRef\<close> points to, and there is
  at most one.
\<close>

definition isDebounce :: "search_timer \<Rightarrow> bool" where
  "isDebounce tm = (case t_callback tm of DebounceCb r \<Rightarrow> True | LoadCb n \<Rightarrow> False)"

definition debounce_tracked :: "'e search_state \<Rightarrow> bool" where
  "debounce_tracked st =
     (list_all (\<lambda>tm. isDebounce tm \<longrightarrow> s_debounceRef st = Some (t_id tm)) (s_timers st)
      \<and> length (filter isDebounce (s_timers st)) \<le> 1)"

text \<open>The test under which a visible-range notification schedules a deferred call.\<close>

definition search_wantsMore :: "nat \<Rightarrow> 'e search_state \<Rightarrow> bool" where
  "search_wantsMore rowStopIndex st =
     (let r = search_render_of st
      in nearEnd rowStopIndex (ceilDiv (r_displayItemCount r) (r_columnCount r))
         \<and> r_hasNextPage r \<and> \<not> r_isLoadingMore r)"

section \<open>Properties of the exposure computation and the window geometry\<close>

lemma ceilDiv_ceiling:
  assumes "0 < b"
  shows "ceilDiv a b = Some (nat \<lceil>real a / real b\<rceil>)"
proof -
  define k where "k = (a + b - 1) div b"
  have lo: "k * b \<le> a + b - 1"
    unfolding k_def by simp
  have hi: "a + b - 1 < (k + 1) * b"
    unfolding k_def using assms
    by (metis Suc_eq_plus1 dividend_less_div_times mult.commute mult_Suc_right)
  from hi assms have up: "a \<le> k * b" by (cases a) auto
  from lo assms have low: "k * b < a + b" by linarith
  have "real a \<le> real k * real b"
    using up by (metis of_nat_le_iff of_nat_mult)
  hence u: "real a / real b \<le> real k"
    using assms by (simp add: pos_divide_le_eq)
  have "real k * real b < real a + real b"
    using low by (metis of_nat_less_iff of_nat_mult of_nat_add)
  hence "(real k - 1) * real b < real a"
    by (simp add: algebra_simps)
  hence l: "real k - 1 < real a / real b"
    using assms by (simp add: pos_less_divide_eq)
  have "\<lceil>real a / real b\<rceil> = int k"
    by (rule ceiling_unique) (use u l in simp_all)
  hence "nat \<lceil>real a / real b\<rceil> = k" by simp
  thus ?thesis using assms by (simp add: ceilDiv_def k_def)
qed

lemma ceiling_buffer_pos:
  assumes "0 < b" "0 < n"
  shows "1 \<le> nat \<lceil>real n / real b\<rceil>"
proof -
  have "0 < real n / real b" using assms by simp
  hence "0 < \<lceil>real n / real b\<rceil>" by (simp only: zero_less_ceiling)
  thus ?thesis by linarith
qed

text \<open>
  Claim C2.  For every data source, revealed count and remote flag, the exposure
  computation yields \<open>exposedCount = min revealedCount (length dataSource)\<close>, the
  exposed slice is the first \<open>exposedCount\<close> elements, and \<open>hasNextPage\<close> says that
  local items remain or the remote source has more.  The search grid has no remote
  source: there the remote disjunct is absent, which is the formula at
  \<open>remoteHasMore = False\<close>.
\<close>

theorem exposure_formula:
  "displayItemCount (douban_exposure v xs h) = min v (length xs)
   \<and> displayData (douban_exposure v xs h) = take (min v (length xs)) xs
   \<and> hasNextPage (douban_exposure v xs h) = (min v (length xs) < length xs \<or> h)
   \<and> displayItemCount (search_exposure v ys) = min v (length ys)
   \<and> displayData (search_exposure v ys) = take (min v (length ys)) ys
   \<and> hasNextPage (search_exposure v ys) = (min v (length ys) < length ys \<or> False)"
  by (simp add: douban_exposure_def search_exposure_def Let_def)

text \<open>
  Claim C7, as stated, fails when nothing is exposed.  With four columns the exact
  policy gives one row; the buffered policy of the search grid gives the 8 buffer rows
  alone, not 1 + 8, and that of the catalogue grid 13, not 1 + 13.
\<close>

theorem rowCount_buffered_counterexample:
  "rowCount_exact (displayItemCount (search_exposure 12 ([] :: nat list))) 4 = Some 1
   \<and> ceilDiv SEARCH_BUFFER_ITEMS 4 = Some 8
   \<and> rowCount_buffered SEARCH_BUFFER_ITEMS
        (displayItemCount (search_exposure 12 ([] :: nat list))) 4 = Some 8
   \<and> rowCount_exact (displayItemCount (douban_exposure 16 ([] :: nat list) False)) 4 = Some 1
   \<and> ceilDiv DOUBAN_BUFFER_ITEMS 4 = Some 13
   \<and> rowCount_buffered DOUBAN_BUFFER_ITEMS
        (displayItemCount (douban_exposure 16 ([] :: nat list) False)) 4 = Some 13"
  by (simp add: rowCount_exact_def rowCount_buffered_def ceilDiv_def search_exposure_def
      douban_exposure_def SEARCH_BUFFER_ITEMS_def DOUBAN_BUFFER_ITEMS_def Let_def)

text \<open>
  Claim C7, amended.  For every exposed count and every column count of at least one,
  the exact policy gives \<open>max 1 \<lceil>min revealedCount N / columnCount\<rceil>\<close> rows, \<open>N\<close> being
  the data length; the buffered policy gives
  \<open>\<lceil>min revealedCount N / columnCount\<rceil> + \<lceil>BUFFER_ITEMS / columnCount\<rceil>\<close> rows (50 buffer
  items in the catalogue grid, 30 in the search grid).  That is the exact row count plus
  exactly \<open>\<lceil>BUFFER_ITEMS / columnCount\<rceil>\<close> buffer rows whenever at least one item is
  exposed, and the buffer rows alone when none is.
\<close>

theorem rowCount_formula:
  assumes "1 \<le> columnCount"
  shows "rowCount_exact (displayItemCount (douban_exposure v xs h)) columnCount
           = Some (max 1 (nat \<lceil>real (min v (length xs)) / real columnCount\<rceil>))
       \<and> rowCount_exact (displayItemCount (search_exposure v ys)) columnCount
           = Some (max 1 (nat \<lceil>real (min v (length ys)) / real columnCount\<rceil>))
       \<and> rowCount_buffered DOUBAN_BUFFER_ITEMS (displayItemCount (douban_exposure v xs h)) columnCount
           = Some (nat \<lceil>real (min v (length xs)) / real columnCount\<rceil>
                   + nat \<lceil>real DOUBAN_BUFFER_ITEMS / real columnCount\<rceil>)
       \<and> rowCount_buffered SEARCH_BUFFER_ITEMS (displayItemCount (search_exposure v ys)) columnCount
           = Some (nat \<lceil>real (min v (length ys)) / real columnCount\<rceil>
                   + nat \<lceil>real SEARCH_BUFFER_ITEMS / real columnCount\<rceil>)
       \<and> (0 < min v (length xs) \<longrightarrow>
            rowCount_buffered DOUBAN_BUFFER_ITEMS (displayItemCount (douban_exposure v xs h)) columnCount
              = map_option (\<lambda>n. n + nat \<lceil>real DOUBAN_BUFFER_ITEMS / real columnCount\<rceil>)
                  (rowCount_exact (displayItemCount (douban_exposure v xs h)) columnCount))
       \<and> (0 < min v (length ys) \<longrightarrow>
            rowCount_buffered SEARCH_BUFFER_ITEMS (displayItemCount (search_exposure v ys)) columnCount
              = map_option (\<lambda>n. n + nat \<lceil>real SEARCH_BUFFER_ITEMS / real columnCount\<rceil>)
                  (rowCount_exact (displayItemCount (search_exposure v ys)) columnCount))
       \<and> (min v (length xs) = 0 \<longrightarrow>
            rowCount_buffered DOUBAN_BUFFER_ITEMS (displayItemCount (douban_exposure v xs h)) columnCount
              = Some (nat \<lceil>real DOUBAN_BUFFER_ITEMS / real columnCount\<rceil>))
       \<and> (min v (length ys) = 0 \<longrightarrow>
            rowCount_buffered SEARCH_BUFFER_ITEMS (displayItemCount (search_exposure v ys)) columnCount
              = Some (nat \<lceil>real SEARCH_BUFFER_ITEMS / real columnCount\<rceil>))"
proof -
  from assms have c: "0 < columnCount" by simp
  have d: "displayItemCount (douban_exposure v xs h) = min v (length xs)"
    by (simp add: douban_exposure_def Let_def)
  have s: "displayItemCount (search_exposure v ys) = min v (length ys)"
    by (simp add: search_exposure_def Let_def)
  have b1: "1 \<le> nat \<lceil>real DOUBAN_BUFFER_ITEMS / real columnCount\<rceil>"
    by (rule ceiling_buffer_pos[OF c]) (simp add: DOUBAN_BUFFER_ITEMS_def)
  have b2: "1 \<le> nat \<lceil>real SEARCH_BUFFER_ITEMS / real columnCount\<rceil>"
    by (rule ceiling_buffer_pos[OF c]) (simp add: SEARCH_BUFFER_ITEMS_def)
  have e1: "rowCount_exact (min v (length xs)) columnCount
      = Some (max 1 (nat \<lceil>real (min v (length xs)) / real columnCount\<rceil>))"
    by (simp only: rowCount_exact_def ceilDiv_ceiling[OF c] option.map)
  have e2: "rowCount_exact (min v (length ys)) columnCount
      = Some (max 1 (nat \<lceil>real (min v (length ys)) / real columnCount\<rceil>))"
    by (simp only: rowCount_exact_def ceilDiv_ceiling[OF c] option.map)
  have f1: "rowCount_buffered DOUBAN_BUFFER_ITEMS (min v (length xs)) columnCount
      = Some (nat \<lceil>real (min v (length xs)) / real columnCount\<rceil>
                   + nat \<lceil>real DOUBAN_BUFFER_ITEMS / real columnCount\<rceil>)"
    using b1 by (simp add: rowCount_buffered_def ceilDiv_ceiling[OF c] max_def)
  have f2: "rowCount_buffered SEARCH_BUFFER_ITEMS (min v (length ys)) columnCount
      = Some (nat \<lceil>real (min v (length ys)) / real columnCount\<rceil>
                   + nat \<lceil>real SEARCH_BUFFER_ITEMS / real columnCount\<rceil>)"
    using b2 by (simp add: rowCount_buffered_def ceilDiv_ceiling[OF c] max_def)
  have g1: "0 < min v (length xs) \<longrightarrow>
      max 1 (nat \<lceil>real (min v (length xs)) / real columnCount\<rceil>)
        = nat \<lceil>real (min v (length xs)) / real columnCount\<rceil>"
    using ceiling_buffer_pos[OF c, of "min v (length xs)"] by simp
  have g2: "0 < min v (length ys) \<longrightarrow>
      max 1 (nat \<lceil>real (min v (length ys)) / real columnCount\<rceil>)
        = nat \<lceil>real (min v (length ys)) / real columnCount\<rceil>"
    using ceiling_buffer_pos[OF c, of "min v (length ys)"] by simp
  have z1: "min v (length xs) = 0 \<longrightarrow>
      nat \<lceil>real (min v (length xs)) / real columnCount\<rceil> = 0"
    by simp
  have z2: "min v (length ys) = 0 \<longrightarrow>
      nat \<lceil>real (min v (length ys)) / real columnCount\<rceil> = 0"
    by simp
  show ?thesis
    using g1 g2 z1 z2 by (simp only: d s e1 e2 f1 f2 option.map) simp
qed

theorem rowCount_formula_witness:
  "(1::nat) \<le> 4
   \<and> rowCount_exact (displayItemCount (douban_exposure 16 (replicate 40 (0::nat)) True)) 4 = Some 4
   \<and> rowCount_buffered SEARCH_BUFFER_ITEMS
        (displayItemCount (search_exposure 16 (replicate 40 (0::nat)))) 4 = Some 12
   \<and> rowCount_buffered DOUBAN_BUFFER_ITEMS
        (displayItemCount (douban_exposure 16 (replicate 40 (0::nat)) True)) 4 = Some 17
   \<and> rowCount_buffered SEARCH_BUFFER_ITEMS
        (displayItemCount (search_exposure 16 ([] :: nat list))) 4 = Some 8
   \<and> rowCount_buffered DOUBAN_BUFFER_ITEMS
        (displayItemCount (douban_exposure 16 ([] :: nat list) True)) 4 = Some 13"
  using rowCount_formula [of 4 16 "replicate 40 (0::nat)" True "replicate 40 (0::nat)"]
    rowCount_formula [of 4 16 "[] :: nat list" True "[] :: nat list"]
  by (simp add: SEARCH_BUFFER_ITEMS_def DOUBAN_BUFFER_ITEMS_def)

section \<open>Properties of the cell resolver\<close>

lemma search_CellComponent_no_TypeError:
  "search_CellComponent f vm q columnCount itemCount
      (take n (currentData vm aggs flat)) ref rowIndex columnIndex \<noteq> Inl TypeError"
  by (auto simp add: search_CellComponent_def currentData_def item_at_def Let_def take_map
      split: option.splits entry.splits prod.splits)

text \<open>
  Claim C9.  For every cell coordinate with \<open>index = row * columnCount + column\<close>: if
  the index is not below the exposed count, or the exposed slice has no item at that
  index, the resolver returns the empty placeholder cell (and, in the search grid,
  touches neither the statistics cache nor \<open>computeGroupStats\<close>); it returns a value
  and raises nothing.
\<close>

theorem cell_placeholder:
  assumes "index = rowIndex * columnCount + columnIndex"
  shows "(index \<ge> itemCount \<or> item_at ddata index = None \<longrightarrow>
            douban_CellComponent ty columnCount itemCount ddata rowIndex columnIndex = Placeholder)
       \<and> (index \<ge> itemCount \<or> item_at sdata index = None \<longrightarrow>
            search_CellComponent f vm q columnCount itemCount sdata ref rowIndex columnIndex
              = Inr \<lparr>cr_cell = Placeholder, cr_groupStats = ref, cr_computed = []\<rparr>)"
  using assms
  by (auto simp add: douban_CellComponent_def search_CellComponent_def Let_def)

theorem cell_placeholder_witness:
  "douban_CellComponent TypeMovie 4 13 [] 3 1 = Placeholder
   \<and> douban_CellComponent TypeMovie 4 20
        [\<lparr>di_id = ''1'', di_title = ''t'', di_poster = ''p'', di_year = ''2020'', di_rate = ''8''\<rparr>] 0 1
       = Placeholder
   \<and> search_CellComponent sampleStats Agg ''q'' 4 13 [] Map.empty 3 1
       = Inr \<lparr>cr_cell = Placeholder, cr_groupStats = Map.empty, cr_computed = []\<rparr>
   \<and> search_CellComponent sampleStats Agg ''q'' 4 20 [GroupEntry ''k'' []] Map.empty 0 1
       = Inr \<lparr>cr_cell = Placeholder, cr_groupStats = Map.empty, cr_computed = []\<rparr>"
  using cell_placeholder [of 13 3 4 1 13 "[]" TypeMovie "[]" sampleStats Agg "''q''" Map.empty]
    cell_placeholder [of 1 0 4 1 20
       "[\<lparr>di_id = ''1'', di_title = ''t'', di_poster = ''p'', di_year = ''2020'', di_rate = ''8''\<rparr>]"
       TypeMovie "[GroupEntry ''k'' []]" sampleStats Agg "''q''" Map.empty]
  by (simp add: item_at_def)





section \<open>Properties of the spider jar provider\<close>


lemma fetchRemote_None_iff:
  "fetchRemote outcome = None \<longleftrightarrow>
     (outcome = FetchThrows
      \<or> (\<exists>ok status body. outcome = Response ok status body
            \<and> (\<not> ok \<or> status \<ge> 400 \<or> body = BodyThrows
                \<or> (\<exists>ab. body = Body ab \<and> length ab < 1000))))"
  by (auto simp add: fetchRemote_def split: fetchOutcome.splits bodyOutcome.splits)

lemma probe_all_fail:
  "\<forall>u \<in> set cs. fetchRemote (net u) = None \<Longrightarrow>
     probe md5 net now t cs = (None, t + length cs, cs)"
  by (induction cs arbitrary: t) auto

lemma probe_first:
  "i < length cs \<Longrightarrow> fetchRemote (net (cs ! i)) = Some buf \<Longrightarrow>
   \<forall>j < i. fetchRemote (net (cs ! j)) = None \<Longrightarrow>
     probe md5 net now t cs =
       (Some \<lparr>jar_buffer = buf, jar_md5 = md5 buf, jar_source = cs ! i, jar_success = True,
              jar_cached = False, jar_timestamp = now, jar_size = length buf,
              jar_tried = t + i + 1\<rparr>,
        t + i + 1, take (Suc i) cs)"
proof (induction cs arbitrary: t i)
  case Nil
  then show ?case by simp
next
  case (Cons url rest)
  show ?case
  proof (cases i)
    case 0
    with Cons.prems show ?thesis by simp
  next
    case (Suc k)
    with Cons.prems have k: "k < length rest" "fetchRemote (net (rest ! k)) = Some buf"
      by simp_all
    from Cons.prems Suc have h: "fetchRemote (net url) = None"
      by (metis nth_Cons_0 zero_less_Suc)
    from Cons.prems Suc have r: "\<forall>j < k. fetchRemote (net (rest ! j)) = None"
      by (metis Suc_less_eq nth_Cons_Suc)
    from Cons.IH[OF k r, of "t + 1"] h Suc show ?thesis by simp
  qed
qed


text \<open>
  Claim C10.  \<open>getSpiderJar\<close> always returns an info record (the model is a total
  function: every rejection of \<open>fetch\<close> or of the body read is a value that
  \<open>fetchRemote\<close> maps to \<open>null\<close>).  A call without \<open>forceRefresh\<close> whose cache entry is
  younger than the TTL of six hours returns that entry marked \<open>cached\<close>, requests nothing
  and leaves the cache alone.  Otherwise the candidates are requested one after the
  other in their declared order, up to and including the first accepted one, which is
  returned with \<open>success\<close>, its position as \<open>tried\<close>, and is cached; if every candidate
  is rejected, the embedded fallback jar is returned with \<open>success = False\<close> and source
  \<open>fallback\<close>, and is cached as well.  A candidate is rejected exactly when the fetch
  rejects, the response is not ok (or has a status of 400 or more), the body cannot be
  read, or the body has fewer than 1000 bytes.
\<close>

theorem getSpiderJar_behaviour:
  "(\<forall>c. \<not> forceRefresh \<and> cache = Some c \<and> now - jar_timestamp c < TTL \<longrightarrow>
       getSpiderJar md5 fb net now forceRefresh cache
         = \<lparr>jr_info = c\<lparr>jar_cached := True\<rparr>, jr_cache = Some c, jr_fetched = []\<rparr>)
   \<and> ((forceRefresh \<or> cache = None \<or> (\<exists>c. cache = Some c \<and> \<not> now - jar_timestamp c < TTL)) \<longrightarrow>
        (\<forall>i buf. i < length CANDIDATES \<and> fetchRemote (net (CANDIDATES ! i)) = Some buf
             \<and> (\<forall>j < i. fetchRemote (net (CANDIDATES ! j)) = None) \<longrightarrow>
           getSpiderJar md5 fb net now forceRefresh cache
             = \<lparr>jr_info = \<lparr>jar_buffer = buf, jar_md5 = md5 buf, jar_source = CANDIDATES ! i,
                              jar_success = True, jar_cached = False, jar_timestamp = now,
                              jar_size = length buf, jar_tried = i + 1\<rparr>,
                  jr_cache = Some \<lparr>jar_buffer = buf, jar_md5 = md5 buf, jar_source = CANDIDATES ! i,
                              jar_success = True, jar_cached = False, jar_timestamp = now,
                              jar_size = length buf, jar_tried = i + 1\<rparr>,
                  jr_fetched = take (Suc i) CANDIDATES\<rparr>)
        \<and> ((\<forall>u \<in> set CANDIDATES. fetchRemote (net u) = None) \<longrightarrow>
           getSpiderJar md5 fb net now forceRefresh cache
             = \<lparr>jr_info = \<lparr>jar_buffer = fb, jar_md5 = md5 fb, jar_source = ''fallback'',
                              jar_success = False, jar_cached = False, jar_timestamp = now,
                              jar_size = length fb, jar_tried = length CANDIDATES\<rparr>,
                  jr_cache = Some \<lparr>jar_buffer = fb, jar_md5 = md5 fb, jar_source = ''fallback'',
                              jar_success = False, jar_cached = False, jar_timestamp = now,
                              jar_size = length fb, jar_tried = length CANDIDATES\<rparr>,
                  jr_fetched = CANDIDATES\<rparr>))
   \<and> (\<forall>u. fetchRemote (net u) = None \<longleftrightarrow>
          (net u = FetchThrows
           \<or> (\<exists>ok status body. net u = Response ok status body
                 \<and> (\<not> ok \<or> status \<ge> 400 \<or> body = BodyThrows
                     \<or> (\<exists>ab. body = Body ab \<and> length ab < 1000)))))"
proof (intro conjI allI impI)
  fix c
  assume "\<not> forceRefresh \<and> cache = Some c \<and> now - jar_timestamp c < TTL"
  thus "getSpiderJar md5 fb net now forceRefresh cache
         = \<lparr>jr_info = c\<lparr>jar_cached := True\<rparr>, jr_cache = Some c, jr_fetched = []\<rparr>"
    by (simp add: getSpiderJar_def)
next
  fix i buf
  assume miss: "forceRefresh \<or> cache = None \<or> (\<exists>c. cache = Some c \<and> \<not> now - jar_timestamp c < TTL)"
  assume hit: "i < length CANDIDATES \<and> fetchRemote (net (CANDIDATES ! i)) = Some buf
             \<and> (\<forall>j < i. fetchRemote (net (CANDIDATES ! j)) = None)"
  from miss have m: "(if forceRefresh then None
            else (case cache of
                    None \<Rightarrow> None
                  | Some c \<Rightarrow> if now - jar_timestamp c < TTL then Some c else None)) = None"
    by (auto split: option.splits)
  from hit have p: "probe md5 net now 0 CANDIDATES =
       (Some \<lparr>jar_buffer = buf, jar_md5 = md5 buf, jar_source = CANDIDATES ! i, jar_success = True,
              jar_cached = False, jar_timestamp = now, jar_size = length buf,
              jar_tried = 0 + i + 1\<rparr>,
        0 + i + 1, take (Suc i) CANDIDATES)"
    by (intro probe_first) simp_all
  show "getSpiderJar md5 fb net now forceRefresh cache
             = \<lparr>jr_info = \<lparr>jar_buffer = buf, jar_md5 = md5 buf, jar_source = CANDIDATES ! i,
                              jar_success = True, jar_cached = False, jar_timestamp = now,
                              jar_size = length buf, jar_tried = i + 1\<rparr>,
                  jr_cache = Some \<lparr>jar_buffer = buf, jar_md5 = md5 buf, jar_source = CANDIDATES ! i,
                              jar_success = True, jar_cached = False, jar_timestamp = now,
                              jar_size = length buf, jar_tried = i + 1\<rparr>,
                  jr_fetched = take (Suc i) CANDIDATES\<rparr>"
    unfolding getSpiderJar_def m p by simp
next
  assume miss: "forceRefresh \<or> cache = None \<or> (\<exists>c. cache = Some c \<and> \<not> now - jar_timestamp c < TTL)"
  assume fail: "\<forall>u \<in> set CANDIDATES. fetchRemote (net u) = None"
  from miss have m: "(if forceRefresh then None
            else (case cache of
                    None \<Rightarrow> None
                  | Some c \<Rightarrow> if now - jar_timestamp c < TTL then Some c else None)) = None"
    by (auto split: option.splits)
  have p: "probe md5 net now 0 CANDIDATES = (None, 0 + length CANDIDATES, CANDIDATES)"
    by (rule probe_all_fail[OF fail])
  show "getSpiderJar md5 fb net now forceRefresh cache
             = \<lparr>jr_info = \<lparr>jar_buffer = fb, jar_md5 = md5 fb, jar_source = ''fallback'',
                              jar_success = False, jar_cached = False, jar_timestamp = now,
                              jar_size = length fb, jar_tried = length CANDIDATES\<rparr>,
                  jr_cache = Some \<lparr>jar_buffer = fb, jar_md5 = md5 fb, jar_source = ''fallback'',
                              jar_success = False, jar_cached = False, jar_timestamp = now,
                              jar_size = length fb, jar_tried = length CANDIDATES\<rparr>,
                  jr_fetched = CANDIDATES\<rparr>"
    unfolding getSpiderJar_def m p by (simp add: Let_def)
next
  fix u
  show "fetchRemote (net u) = None \<longleftrightarrow>
          (net u = FetchThrows
           \<or> (\<exists>ok status body. net u = Response ok status body
                 \<and> (\<not> ok \<or> status \<ge> 400 \<or> body = BodyThrows
                     \<or> (\<exists>ab. body = Body ab \<and> length ab < 1000))))"
    by (rule fetchRemote_None_iff)
qed


theorem getSpiderJar_behaviour_witness:
  "getSpiderJar sampleMd5 [] deadNet 5 False None
     = \<lparr>jr_info = \<lparr>jar_buffer = [], jar_md5 = ''d41d8cd98f00b204e9800998ecf8427e'',
                 jar_source = ''fallback'', jar_success = False, jar_cached = False,
                 jar_timestamp = 5, jar_size = 0, jar_tried = 7\<rparr>,
          jr_cache = Some \<lparr>jar_buffer = [], jar_md5 = ''d41d8cd98f00b204e9800998ecf8427e'',
                 jar_source = ''fallback'', jar_success = False, jar_cached = False,
                 jar_timestamp = 5, jar_size = 0, jar_tried = 7\<rparr>,
          jr_fetched = CANDIDATES\<rparr>
   \<and> getSpiderJar sampleMd5 [] sampleNet 21600004 False
        (Some \<lparr>jar_buffer = [], jar_md5 = ''d41d8cd98f00b204e9800998ecf8427e'',
                 jar_source = ''fallback'', jar_success = False, jar_cached = False,
                 jar_timestamp = 5, jar_size = 0, jar_tried = 7\<rparr>)
     = \<lparr>jr_info = \<lparr>jar_buffer = [], jar_md5 = ''d41d8cd98f00b204e9800998ecf8427e'',
                 jar_source = ''fallback'', jar_success = False, jar_cached = True,
                 jar_timestamp = 5, jar_size = 0, jar_tried = 7\<rparr>,
          jr_cache = Some \<lparr>jar_buffer = [], jar_md5 = ''d41d8cd98f00b204e9800998ecf8427e'',
                 jar_source = ''fallback'', jar_success = False, jar_cached = False,
                 jar_timestamp = 5, jar_size = 0, jar_tried = 7\<rparr>,
          jr_fetched = []\<rparr>
   \<and> getSpiderJar sampleMd5 [] sampleNet 21600005 False
        (Some \<lparr>jar_buffer = [], jar_md5 = ''d41d8cd98f00b204e9800998ecf8427e'',
                 jar_source = ''fallback'', jar_success = False, jar_cached = False,
                 jar_timestamp = 5, jar_size = 0, jar_tried = 7\<rparr>)
     = \<lparr>jr_info = \<lparr>jar_buffer = replicate 1000 0, jar_md5 = ''00'',
                 jar_source = ''https://gitee.com/q215613905/TVBoxOS/raw/main/JAR/XC.jar'',
                 jar_success = True, jar_cached = False,
                 jar_timestamp = 21600005, jar_size = 1000, jar_tried = 2\<rparr>,
          jr_cache = Some \<lparr>jar_buffer = replicate 1000 0, jar_md5 = ''00'',
                 jar_source = ''https://gitee.com/q215613905/TVBoxOS/raw/main/JAR/XC.jar'',
                 jar_success = True, jar_cached = False,
                 jar_timestamp = 21600005, jar_size = 1000, jar_tried = 2\<rparr>,
          jr_fetched = [''https://gitcode.net/qq_26898231/TVBox/-/raw/main/JAR/XC.jar'',
                        ''https://gitee.com/q215613905/TVBoxOS/raw/main/JAR/XC.jar'']\<rparr>"
proof -
  let ?fbinfo = "\<lparr>jar_buffer = [], jar_md5 = ''d41d8cd98f00b204e9800998ecf8427e'',
                 jar_source = ''fallback'', jar_success = False, jar_cached = False,
                 jar_timestamp = 5, jar_size = 0, jar_tried = 7\<rparr>"
  have a: "\<forall>u \<in> set CANDIDATES. fetchRemote (deadNet u) = None"
    by (simp add: deadNet_def fetchRemote_def)
  have l: "length CANDIDATES = 7"
    by (simp add: CANDIDATES_def)
  have n0: "fetchRemote (sampleNet (CANDIDATES ! 0)) = None"
    by (simp add: CANDIDATES_def sampleNet_def fetchRemote_def)
  have n1: "fetchRemote (sampleNet (CANDIDATES ! 1)) = Some (replicate 1000 0)"
    by (simp add: CANDIDATES_def sampleNet_def fetchRemote_def)
  have c1: "CANDIDATES ! 1 = ''https://gitee.com/q215613905/TVBoxOS/raw/main/JAR/XC.jar''"
    by (simp add: CANDIDATES_def)
  have t2: "take (Suc 1) CANDIDATES = [''https://gitcode.net/qq_26898231/TVBox/-/raw/main/JAR/XC.jar'',
                        ''https://gitee.com/q215613905/TVBoxOS/raw/main/JAR/XC.jar'']"
    by (simp add: CANDIDATES_def)
  have lt: "\<forall>j < (1::nat). fetchRemote (sampleNet (CANDIDATES ! j)) = None"
    using n0 by simp
  have m: "sampleMd5 [] = ''d41d8cd98f00b204e9800998ecf8427e''" "sampleMd5 (replicate 1000 0) = ''00''"
    by (simp_all add: sampleMd5_def)
  note w1 = getSpiderJar_behaviour [of False None 5 sampleMd5 "[]" deadNet]
  note w2 = getSpiderJar_behaviour [of False "Some ?fbinfo" 21600004 sampleMd5 "[]" sampleNet]
  note w3 = getSpiderJar_behaviour [of False "Some ?fbinfo" 21600005 sampleMd5 "[]" sampleNet]
  have r1: "getSpiderJar sampleMd5 [] deadNet 5 False None
     = \<lparr>jr_info = ?fbinfo, jr_cache = Some ?fbinfo, jr_fetched = CANDIDATES\<rparr>"
    using w1 a l m by simp
  have r2: "getSpiderJar sampleMd5 [] sampleNet 21600004 False (Some ?fbinfo)
     = \<lparr>jr_info = ?fbinfo\<lparr>jar_cached := True\<rparr>, jr_cache = Some ?fbinfo, jr_fetched = []\<rparr>"
    using w2 by (simp add: TTL_def)
  have r3: "getSpiderJar sampleMd5 [] sampleNet 21600005 False (Some ?fbinfo)
     = \<lparr>jr_info = \<lparr>jar_buffer = replicate 1000 0, jar_md5 = sampleMd5 (replicate 1000 0),
                 jar_source = CANDIDATES ! 1, jar_success = True, jar_cached = False,
                 jar_timestamp = 21600005, jar_size = length (replicate 1000 (0::byte)), jar_tried = 1 + 1\<rparr>,
          jr_cache = Some \<lparr>jar_buffer = replicate 1000 0, jar_md5 = sampleMd5 (replicate 1000 0),
                 jar_source = CANDIDATES ! 1, jar_success = True, jar_cached = False,
                 jar_timestamp = 21600005, jar_size = length (replicate 1000 (0::byte)), jar_tried = 1 + 1\<rparr>,
          jr_fetched = take (Suc 1) CANDIDATES\<rparr>"
  proof -
    have miss: "False \<or> Some ?fbinfo = None \<or> (\<exists>c. Some ?fbinfo = Some c \<and> \<not> 21600005 - jar_timestamp c < TTL)"
      by (simp add: TTL_def)
    have hit: "1 < length CANDIDATES \<and> fetchRemote (sampleNet (CANDIDATES ! 1)) = Some (replicate 1000 0)
             \<and> (\<forall>j < 1. fetchRemote (sampleNet (CANDIDATES ! j)) = None)"
      using l n1 lt by simp
    from w3 miss hit show ?thesis by blast
  qed
  show ?thesis
    unfolding r1 r2 r3 using m c1 t2 by simp
qed

section \<open>Properties of the event-driven machines\<close>

lemmas search_defs =
  search_step_def search_init_def search_enabled_at_def search_onCellsRendered_def
  search0_onCellsRendered_def search_render_of_def search_exposure_def search_setTimeout_def
  search_clearTimeout_def search_reset_def search_resetEffect_def search_loadMoreItems_def search_callback_fires_def
  nearEnd_def ceilDiv_def rowCount_exact_def SEARCH_INITIAL_BATCH_SIZE_def
  SEARCH_LOAD_MORE_BATCH_SIZE_def LOAD_MORE_THRESHOLD_def Let_def

lemmas douban_defs =
  douban_step_def douban_init_def douban_enabled_at_def douban_onCellsRendered_def
  douban_render_of_def douban_exposure_def douban_setTimeout_def douban_clearTimeout_def
  douban_props_def douban_resetEffect_def douban_loadMoreItems_def douban_callback_fires_def
  nearEnd_def ceilDiv_def rowCount_exact_def DOUBAN_INITIAL_BATCH_SIZE_def
  DOUBAN_LOAD_MORE_BATCH_SIZE_def LOAD_MORE_THRESHOLD_def Let_def


subsection \<open>The revealed count within one data source: search grid\<close>






lemma search_clearTimeout_fields:
  "s_data (search_clearTimeout i st) = s_data st"
  "s_visibleItemCount (search_clearTimeout i st) = s_visibleItemCount st"
  "set (s_timers (search_clearTimeout i st)) \<subseteq> set (s_timers st)"
  by (auto simp add: search_clearTimeout_def)






subsection \<open>The revealed count within one data source: catalogue grid\<close>









section \<open>Properties of the load-more request\<close>





subsection \<open>A load that outlives its data source\<close>

lemma onCellsRendered_keeps_timer:
  assumes "tm \<in> set (s_timers st)" and "s_debounceRef st \<noteq> Some (t_id tm)"
  shows "tm \<in> set (s_timers (search_onCellsRendered r st))"
    and "tm \<in> set (s_timers (search0_onCellsRendered r st))"
  using assms
  by (auto simp add: search_onCellsRendered_def search0_onCellsRendered_def
      search_setTimeout_def search_clearTimeout_def Let_def split: option.splits)

lemma source_change_step:
  assumes "\<not> keepsSource ev" and "search_step variant st ev = Some st'"
  shows "\<exists>t d st1. st' = search_resetEffect st1 \<and> s_data st1 = d
           \<and> (ev = SourceChange t d \<and> st1 = st\<lparr>s_now := t, s_data := d\<rparr>
              \<or> (\<exists>r. ev = SourceChangeNotified t d r
                    \<and> st1 = (if variant = Current
                             then search_onCellsRendered r (st\<lparr>s_now := t, s_data := d\<rparr>)
                             else search0_onCellsRendered r (st\<lparr>s_now := t, s_data := d\<rparr>))))"
proof (cases ev)
  case (SourceChange t d)
  with assms show ?thesis
    by (auto simp add: search_step_def search_reset_def split: if_splits)
next
  case (CellsRendered t r)
  with assms show ?thesis by simp
next
  case TimerFires
  with assms show ?thesis by simp
next
  case (SourceChangeNotified t d r)
  have "s_data (search_onCellsRendered r (st\<lparr>s_now := t, s_data := d\<rparr>)) = d"
    "s_data (search0_onCellsRendered r (st\<lparr>s_now := t, s_data := d\<rparr>)) = d"
    by (simp_all add: search_onCellsRendered_def search0_onCellsRendered_def
        search_setTimeout_def search_clearTimeout_def Let_def split: option.splits)
  with assms SourceChangeNotified show ?thesis
    by (auto simp add: search_step_def split: if_splits)
qed

text \<open>
  Claim C3, as stated, fails.  A load is requested on a source of 100 items at 150 ms;
  at 200 ms the source is replaced by one of 50 items and the count is reset to 12; at
  250 ms the load of the old source completes and raises the count of the new source
  to 20.
\<close>

theorem stale_load_counterexample:
  "search_run Current (search_init (replicate 100 (0::nat)) 4)
       [CellsRendered 0 2, TimerFires, SourceChange 200 (replicate 50 1)]
     = Some \<lparr>s_data = replicate 50 1, s_columnCount = 4, s_visibleItemCount = 12,
             s_isLoadingMore = False, s_debounceRef = Some 1,
             s_timers = [\<lparr>t_id = 2, t_deadline = 250, t_callback = LoadCb 100\<rparr>],
             s_nextTimerId = 3, s_now = 200, s_loadMoreCalls = 1\<rparr>
   \<and> search_run Current (search_init (replicate 100 (0::nat)) 4)
       [CellsRendered 0 2, TimerFires, SourceChange 200 (replicate 50 1), TimerFires]
     = Some \<lparr>s_data = replicate 50 1, s_columnCount = 4, s_visibleItemCount = 20,
             s_isLoadingMore = False, s_debounceRef = Some 1, s_timers = [],
             s_nextTimerId = 3, s_now = 250, s_loadMoreCalls = 1\<rparr>"
  by (simp add: search_defs)

text \<open>
  Claim C3, amended.  When the data source changes while a load of the current source is
  in flight, the reset sets the revealed count to the initial batch size and clears the
  in-flight flag, but the pending load is neither cancelled nor guarded by a token of
  the source.  The change leaves the load's timer pending; a notification delivered in
  the commit of the change can cancel only the timer that \<open>debounceRef\<close> points to.
  Whenever the load's timer fires it sets the revealed count to
  \<open>min (revealedCount + 8) total\<close>, \<open>total\<close> being the length of the old source, and
  clears the in-flight flag.  When it is the next timer to fire, the new source is left
  with the count \<open>min (12 + 8) total\<close>, the flag cleared and the new data in place.
\<close>

theorem stale_load_unguarded:
  assumes inv: "search_inv st"
      and mem: "tm \<in> set (s_timers st)"
      and cb: "t_callback tm = LoadCb totalItemCount"
      and ev: "\<not> keepsSource ev"
      and step: "search_step variant st ev = Some st'"
  shows "totalItemCount = length (s_data st)
       \<and> s_visibleItemCount st' = SEARCH_INITIAL_BATCH_SIZE
       \<and> \<not> s_isLoadingMore st'
       \<and> (\<forall>t d. ev = SourceChange t d \<longrightarrow> s_data st' = d \<and> s_timers st' = s_timers st)
       \<and> (\<forall>t d r. ev = SourceChangeNotified t d r \<longrightarrow> s_data st' = d)
       \<and> (s_debounceRef st \<noteq> Some (t_id tm) \<longrightarrow> tm \<in> set (s_timers st'))
       \<and> (\<forall>st''. search_callback_fires (t_callback tm) st''
              = st''\<lparr>s_visibleItemCount :=
                        min (s_visibleItemCount st'' + SEARCH_LOAD_MORE_BATCH_SIZE)
                            (length (s_data st)),
                      s_isLoadingMore := False\<rparr>)
       \<and> (earliest (s_timers st') = Some tm \<longrightarrow>
            map_option s_visibleItemCount (search_step variant st' TimerFires)
              = Some (min (SEARCH_INITIAL_BATCH_SIZE + SEARCH_LOAD_MORE_BATCH_SIZE)
                          (length (s_data st)))
          \<and> map_option s_isLoadingMore (search_step variant st' TimerFires) = Some False
          \<and> map_option s_data (search_step variant st' TimerFires) = Some (s_data st'))"
proof -
  from inv mem have "search_timer_ok st tm"
    by (simp add: search_inv_def list_all_iff)
  with cb have tot: "totalItemCount = length (s_data st)"
    by (simp add: search_timer_ok_def)
  from source_change_step[OF ev step] obtain t d st1 where st': "st' = search_resetEffect st1"
    and d1: "s_data st1 = d"
    and alt: "ev = SourceChange t d \<and> st1 = st\<lparr>s_now := t, s_data := d\<rparr>
              \<or> (\<exists>r. ev = SourceChangeNotified t d r
                    \<and> st1 = (if variant = Current
                             then search_onCellsRendered r (st\<lparr>s_now := t, s_data := d\<rparr>)
                             else search0_onCellsRendered r (st\<lparr>s_now := t, s_data := d\<rparr>)))"
    by blast
  have r1: "s_visibleItemCount st' = SEARCH_INITIAL_BATCH_SIZE" "\<not> s_isLoadingMore st'"
    "s_data st' = d" "s_timers st' = s_timers st1"
    using d1 by (simp_all add: st' search_resetEffect_def)
  have plain: "\<forall>t d. ev = SourceChange t d \<longrightarrow> s_data st' = d \<and> s_timers st' = s_timers st"
    using alt r1 by auto
  have noti: "\<forall>t d r. ev = SourceChangeNotified t d r \<longrightarrow> s_data st' = d"
    using alt r1 by auto
  have keep: "s_debounceRef st \<noteq> Some (t_id tm) \<longrightarrow> tm \<in> set (s_timers st')"
  proof
    assume ne: "s_debounceRef st \<noteq> Some (t_id tm)"
    from alt show "tm \<in> set (s_timers st')"
    proof
      assume "ev = SourceChange t d \<and> st1 = st\<lparr>s_now := t, s_data := d\<rparr>"
      with mem r1 show ?thesis by simp
    next
      assume "\<exists>r. ev = SourceChangeNotified t d r
                    \<and> st1 = (if variant = Current
                             then search_onCellsRendered r (st\<lparr>s_now := t, s_data := d\<rparr>)
                             else search0_onCellsRendered r (st\<lparr>s_now := t, s_data := d\<rparr>))"
      then obtain r where s1: "st1 = (if variant = Current
                             then search_onCellsRendered r (st\<lparr>s_now := t, s_data := d\<rparr>)
                             else search0_onCellsRendered r (st\<lparr>s_now := t, s_data := d\<rparr>))"
        by blast
      have m: "tm \<in> set (s_timers (st\<lparr>s_now := t, s_data := d\<rparr>))"
        using mem by simp
      have n: "s_debounceRef (st\<lparr>s_now := t, s_data := d\<rparr>) \<noteq> Some (t_id tm)"
        using ne by simp
      from onCellsRendered_keeps_timer[OF m n, of r] s1 have "tm \<in> set (s_timers st1)"
        by simp
      with r1 show ?thesis by simp
    qed
  qed
  have fire: "\<forall>st''. search_callback_fires (t_callback tm) st''
              = st''\<lparr>s_visibleItemCount :=
                        min (s_visibleItemCount st'' + SEARCH_LOAD_MORE_BATCH_SIZE)
                            (length (s_data st)),
                      s_isLoadingMore := False\<rparr>"
    using cb tot by (simp add: search_callback_fires_def)
  have next_fire: "earliest (s_timers st') = Some tm \<longrightarrow>
            map_option s_visibleItemCount (search_step variant st' TimerFires)
              = Some (min (SEARCH_INITIAL_BATCH_SIZE + SEARCH_LOAD_MORE_BATCH_SIZE)
                          (length (s_data st)))
          \<and> map_option s_isLoadingMore (search_step variant st' TimerFires) = Some False
          \<and> map_option s_data (search_step variant st' TimerFires) = Some (s_data st')"
    using cb tot r1
    by (simp add: search_step_def search_clearTimeout_def search_callback_fires_def)
  from tot r1 plain noti keep fire next_fire show ?thesis by blast
qed


theorem stale_load_unguarded_witness:
  "map_option s_visibleItemCount
     (search_step Current
        \<lparr>s_data = replicate 50 (1::nat), s_columnCount = 4, s_visibleItemCount = 12,
             s_isLoadingMore = False, s_debounceRef = Some 1,
             s_timers = [\<lparr>t_id = 2, t_deadline = 250, t_callback = LoadCb 100\<rparr>],
             s_nextTimerId = 3, s_now = 200, s_loadMoreCalls = 1\<rparr> TimerFires) = Some 20
   \<and> map_option s_isLoadingMore
     (search_step Current
        \<lparr>s_data = replicate 50 (1::nat), s_columnCount = 4, s_visibleItemCount = 12,
             s_isLoadingMore = False, s_debounceRef = Some 1,
             s_timers = [\<lparr>t_id = 2, t_deadline = 250, t_callback = LoadCb 100\<rparr>],
             s_nextTimerId = 3, s_now = 200, s_loadMoreCalls = 1\<rparr> TimerFires) = Some False
   \<and> search_step Current
        \<lparr>s_data = replicate 100 (0::nat), s_columnCount = 4, s_visibleItemCount = 12,
             s_isLoadingMore = True, s_debounceRef = Some 1,
             s_timers = [\<lparr>t_id = 2, t_deadline = 250, t_callback = LoadCb 100\<rparr>],
             s_nextTimerId = 3, s_now = 150, s_loadMoreCalls = 1\<rparr>
        (SourceChangeNotified 200 (replicate 50 1) 2)
      = Some \<lparr>s_data = replicate 50 1, s_columnCount = 4, s_visibleItemCount = 12,
             s_isLoadingMore = False, s_debounceRef = Some 1,
             s_timers = [\<lparr>t_id = 2, t_deadline = 250, t_callback = LoadCb 100\<rparr>],
             s_nextTimerId = 3, s_now = 200, s_loadMoreCalls = 1\<rparr>"
proof -
  let ?st = "\<lparr>s_data = replicate 100 (0::nat), s_columnCount = 4, s_visibleItemCount = 12,
             s_isLoadingMore = True, s_debounceRef = Some 1,
             s_timers = [\<lparr>t_id = 2, t_deadline = 250, t_callback = LoadCb 100\<rparr>],
             s_nextTimerId = 3, s_now = 150, s_loadMoreCalls = 1\<rparr>"
  let ?st' = "\<lparr>s_data = replicate 50 (1::nat), s_columnCount = 4, s_visibleItemCount = 12,
             s_isLoadingMore = False, s_debounceRef = Some 1,
             s_timers = [\<lparr>t_id = 2, t_deadline = 250, t_callback = LoadCb 100\<rparr>],
             s_nextTimerId = 3, s_now = 200, s_loadMoreCalls = 1\<rparr>"
  let ?tm = "\<lparr>t_id = 2, t_deadline = 250, t_callback = LoadCb 100\<rparr>"
  have i: "search_inv ?st"
    by (simp add: search_inv_def search_timer_ok_def)
  have a: "?tm \<in> set (s_timers ?st)" by simp
  have b: "t_callback ?tm = LoadCb 100" by simp
  have k1: "\<not> keepsSource (SourceChange 200 (replicate 50 (1::nat)))" by simp
  have k2: "\<not> keepsSource (SourceChangeNotified 200 (replicate 50 (1::nat)) 2)" by simp
  have c1: "search_step Current ?st (SourceChange 200 (replicate 50 1)) = Some ?st'"
    by (simp add: search_defs)
  have c2: "search_step Current ?st (SourceChangeNotified 200 (replicate 50 1) 2) = Some ?st'"
    by (simp add: search_defs)
  have d: "earliest (s_timers ?st') = Some ?tm" by simp
  from stale_load_unguarded [OF i a b k1 c1] d
  have f2: "map_option s_isLoadingMore (search_step Current ?st' TimerFires) = Some False"
    by blast
  from stale_load_unguarded [OF i a b k2 c2] d
  have g1: "map_option s_visibleItemCount (search_step Current ?st' TimerFires)
              = Some (min (SEARCH_INITIAL_BATCH_SIZE + SEARCH_LOAD_MORE_BATCH_SIZE)
                          (length (s_data ?st)))"
    by blast
  have n: "min (SEARCH_INITIAL_BATCH_SIZE + SEARCH_LOAD_MORE_BATCH_SIZE) (length (s_data ?st)) = 20"
    by (simp add: SEARCH_INITIAL_BATCH_SIZE_def SEARCH_LOAD_MORE_BATCH_SIZE_def)
  from g1 have "map_option s_visibleItemCount (search_step Current ?st' TimerFires) = Some 20"
    unfolding n .
  with f2 c2 show ?thesis by (intro conjI)
qed


subsection \<open>Monotonicity of the revealed count\<close>





subsection \<open>The deferred call of the scroll-proximity trigger\<close>

text \<open>
  Claim C4: a burst of visible-range notifications within one debounce window, all
  passing the proximity test, results in exactly one request for more, each later
  notification cancelling the deferred call scheduled before it.  The earlier search
  grid breaks this.  Two notifications 10 ms apart, both near the end, leave two
  deferred calls pending, since the earlier one is never cancelled;
  both fire, both invoke \<open>loadMoreItems\<close>, both invocations pass its guard (their render
  still has \<open>isLoadingMore = False\<close>), and the revealed count grows by two batches.
\<close>

theorem burst_not_coalesced:
  "search_run Earlier (search_init (replicate 40 (0::nat)) 4)
       [CellsRendered 0 2, CellsRendered 10 2]
     = Some \<lparr>s_data = replicate 40 0, s_columnCount = 4, s_visibleItemCount = 12,
             s_isLoadingMore = False, s_debounceRef = None,
             s_timers =
               [\<lparr>t_id = 1, t_deadline = 100,
                  t_callback = DebounceCb \<lparr>r_isLoadingMore = False, r_hasNextPage = True,
                    r_totalItemCount = 40, r_displayItemCount = 12, r_columnCount = 4\<rparr>\<rparr>,
                \<lparr>t_id = 2, t_deadline = 110,
                  t_callback = DebounceCb \<lparr>r_isLoadingMore = False, r_hasNextPage = True,
                    r_totalItemCount = 40, r_displayItemCount = 12, r_columnCount = 4\<rparr>\<rparr>],
             s_nextTimerId = 3, s_now = 10, s_loadMoreCalls = 0\<rparr>
   \<and> search_run Earlier (search_init (replicate 40 (0::nat)) 4)
       [CellsRendered 0 2, CellsRendered 10 2, TimerFires, TimerFires]
     = Some \<lparr>s_data = replicate 40 0, s_columnCount = 4, s_visibleItemCount = 12,
             s_isLoadingMore = True, s_debounceRef = None,
             s_timers = [\<lparr>t_id = 3, t_deadline = 200, t_callback = LoadCb 40\<rparr>,
                         \<lparr>t_id = 4, t_deadline = 210, t_callback = LoadCb 40\<rparr>],
             s_nextTimerId = 5, s_now = 110, s_loadMoreCalls = 2\<rparr>
   \<and> search_run Earlier (search_init (replicate 40 (0::nat)) 4)
       [CellsRendered 0 2, CellsRendered 10 2, TimerFires, TimerFires, TimerFires, TimerFires]
     = Some \<lparr>s_data = replicate 40 0, s_columnCount = 4, s_visibleItemCount = 28,
             s_isLoadingMore = False, s_debounceRef = None, s_timers = [],
             s_nextTimerId = 5, s_now = 210, s_loadMoreCalls = 2\<rparr>"
  by (simp add: search_defs)

text \<open>
  The current search grid does coalesce.  At most one deferred call is pending at any
  time, and a burst of notifications that all pass the scheduling test, with no timer
  firing in between, leaves exactly one deferred call, whose firing invokes
  \<open>loadMoreItems\<close> once.
\<close>

lemma burst_coalesced_example:
  "search_run Current (search_init (replicate 40 (0::nat)) 4)
       [CellsRendered 0 2, CellsRendered 10 2, TimerFires]
     = Some \<lparr>s_data = replicate 40 0, s_columnCount = 4, s_visibleItemCount = 12,
             s_isLoadingMore = True, s_debounceRef = Some 2,
             s_timers = [\<lparr>t_id = 3, t_deadline = 260, t_callback = LoadCb 40\<rparr>],
             s_nextTimerId = 4, s_now = 160, s_loadMoreCalls = 1\<rparr>"
  by (simp add: search_defs)

lemma search_onCellsRendered_timers:
  "s_timers (search_onCellsRendered r st) =
     (case s_debounceRef st of None \<Rightarrow> s_timers st
        | Some i \<Rightarrow> filter (\<lambda>t. t_id t \<noteq> i) (s_timers st))
     @ (if search_wantsMore r st
        then [\<lparr>t_id = s_nextTimerId st, t_deadline = s_now st + 150,
               t_callback = DebounceCb (search_render_of st)\<rparr>]
        else [])"
  by (simp add: search_onCellsRendered_def search_wantsMore_def search_setTimeout_def
      search_clearTimeout_def Let_def split: option.splits)

lemma search_onCellsRendered_fields:
  "s_debounceRef (search_onCellsRendered r st) =
     (if search_wantsMore r st then Some (s_nextTimerId st) else s_debounceRef st)"
  "s_loadMoreCalls (search_onCellsRendered r st) = s_loadMoreCalls st"
  "search_render_of (search_onCellsRendered r st) = search_render_of st"
  by (simp_all add: search_onCellsRendered_def search_wantsMore_def search_setTimeout_def
      search_clearTimeout_def search_render_of_def Let_def split: option.splits)

lemma tracked_no_debounce_after_clear:
  assumes "debounce_tracked st"
  shows "filter isDebounce
           (case s_debounceRef st of None \<Rightarrow> s_timers st
            | Some i \<Rightarrow> filter (\<lambda>t. t_id t \<noteq> i) (s_timers st)) = []"
proof -
  from assms have a: "\<forall>tm \<in> set (s_timers st). isDebounce tm \<longrightarrow> s_debounceRef st = Some (t_id tm)"
    by (simp add: debounce_tracked_def list_all_iff)
  show ?thesis
  proof (cases "s_debounceRef st")
    case None
    with a show ?thesis by (auto simp add: filter_empty_conv)
  next
    case (Some i)
    with a show ?thesis by (auto simp add: filter_empty_conv)
  qed
qed

lemma tracked_onCellsRendered:
  assumes "debounce_tracked st"
  shows "debounce_tracked (search_onCellsRendered r st)
       \<and> filter isDebounce (s_timers (search_onCellsRendered r st)) =
           (if search_wantsMore r st
            then [\<lparr>t_id = s_nextTimerId st, t_deadline = s_now st + 150,
                   t_callback = DebounceCb (search_render_of st)\<rparr>]
            else [])"
proof -
  have f: "filter isDebounce (s_timers (search_onCellsRendered r st)) =
           (if search_wantsMore r st
            then [\<lparr>t_id = s_nextTimerId st, t_deadline = s_now st + 150,
                   t_callback = DebounceCb (search_render_of st)\<rparr>]
            else [])"
    by (simp add: search_onCellsRendered_timers tracked_no_debounce_after_clear[OF assms]
        isDebounce_def)
  have "\<forall>tm \<in> set (s_timers (search_onCellsRendered r st)).
          isDebounce tm \<longrightarrow> s_debounceRef (search_onCellsRendered r st) = Some (t_id tm)"
  proof (intro ballI impI)
    fix tm assume "tm \<in> set (s_timers (search_onCellsRendered r st))" "isDebounce tm"
    hence "tm \<in> set (filter isDebounce (s_timers (search_onCellsRendered r st)))" by simp
    with f show "s_debounceRef (search_onCellsRendered r st) = Some (t_id tm)"
      by (auto simp add: search_onCellsRendered_fields split: if_splits)
  qed
  with f show ?thesis
    by (simp add: debounce_tracked_def list_all_iff)
qed

lemma tracked_fire:
  assumes "debounce_tracked st"
  shows "debounce_tracked (search_callback_fires cb (search_clearTimeout i (st\<lparr>s_now := n\<rparr>)))"
proof -
  define st2 where "st2 = search_clearTimeout i (st\<lparr>s_now := n\<rparr>)"
  define st3 where "st3 = search_callback_fires cb st2"
  have t2: "s_timers st2 = filter (\<lambda>t. t_id t \<noteq> i) (s_timers st)"
    "s_debounceRef st2 = s_debounceRef st"
    by (simp_all add: st2_def search_clearTimeout_def)
  have t3: "s_debounceRef st3 = s_debounceRef st2
      \<and> (s_timers st3 = s_timers st2
          \<or> (\<exists>x. s_timers st3 = s_timers st2 @ [x] \<and> \<not> isDebounce x))"
    by (cases cb) (simp_all add: st3_def search_callback_fires_def search_loadMoreItems_def
        search_setTimeout_def isDebounce_def Let_def)
  hence f3: "filter isDebounce (s_timers st3) = filter isDebounce (s_timers st2)"
    by auto
  have e2: "filter isDebounce (s_timers st2) = filter (\<lambda>t. t_id t \<noteq> i) (filter isDebounce (s_timers st))"
    by (simp add: t2 conj_commute)
  have l: "length (filter isDebounce (s_timers st3)) \<le> length (filter isDebounce (s_timers st))"
    unfolding f3 e2 by (rule length_filter_le)
  from assms have a: "\<forall>tm \<in> set (s_timers st). isDebounce tm \<longrightarrow> s_debounceRef st = Some (t_id tm)"
    and b: "length (filter isDebounce (s_timers st)) \<le> 1"
    by (simp_all add: debounce_tracked_def list_all_iff)
  have "\<forall>tm \<in> set (s_timers st3). isDebounce tm \<longrightarrow> s_debounceRef st3 = Some (t_id tm)"
  proof (intro ballI impI)
    fix tm assume "tm \<in> set (s_timers st3)" "isDebounce tm"
    hence "tm \<in> set (filter isDebounce (s_timers st3))" by simp
    with f3 t2 have "tm \<in> set (s_timers st)" by simp
    with a \<open>isDebounce tm\<close> t3 t2 show "s_debounceRef st3 = Some (t_id tm)" by simp
  qed
  with l b show ?thesis
    by (simp add: debounce_tracked_def list_all_iff st3_def st2_def)
qed

lemma tracked_step:
  assumes "debounce_tracked st" and "search_step Current st ev = Some st'"
  shows "debounce_tracked st'"
proof (cases ev)
  case (SourceChange t d)
  with assms show ?thesis
    by (auto simp add: search_step_def search_reset_def search_resetEffect_def debounce_tracked_def
        split: if_splits)
next
  case (CellsRendered t r)
  with assms have st': "st' = search_onCellsRendered r (st\<lparr>s_now := t\<rparr>)"
    by (auto simp add: search_step_def split: if_splits)
  from assms(1) have "debounce_tracked (st\<lparr>s_now := t\<rparr>)"
    by (simp add: debounce_tracked_def)
  from tracked_onCellsRendered[OF this] st' show ?thesis by simp
next
  case TimerFires
  with assms obtain tm where tm: "earliest (s_timers st) = Some tm"
    and st': "st' = search_callback_fires (t_callback tm)
                       (search_clearTimeout (t_id tm)
                          (st\<lparr>s_now := max (s_now st) (t_deadline tm)\<rparr>))"
    by (auto simp add: search_step_def split: option.splits)
  show ?thesis unfolding st' by (rule tracked_fire[OF assms(1)])
next
  case (SourceChangeNotified t d r)
  with assms have st': "st' = search_resetEffect
                    (search_onCellsRendered r (st\<lparr>s_now := t, s_data := d\<rparr>))"
    by (auto simp add: search_step_def split: if_splits)
  from assms(1) have "debounce_tracked (st\<lparr>s_now := t, s_data := d\<rparr>)"
    by (simp add: debounce_tracked_def)
  from tracked_onCellsRendered[OF this, of r]
  have "debounce_tracked (search_onCellsRendered r (st\<lparr>s_now := t, s_data := d\<rparr>))"
    by simp
  thus ?thesis
    unfolding st' by (simp add: search_resetEffect_def debounce_tracked_def)
qed

lemma tracked_run:
  assumes "debounce_tracked st" and "search_run Current st evs = Some st'"
  shows "debounce_tracked st'"
  using assms
proof (induction evs arbitrary: st)
  case Nil
  then show ?case by simp
next
  case (Cons ev evs)
  from Cons.prems obtain st1 where s1: "search_step Current st ev = Some st1"
    and r: "search_run Current st1 evs = Some st'"
    by (auto split: option.splits)
  from Cons.IH[OF tracked_step[OF Cons.prems(1) s1] r] show ?case .
qed

lemma current_one_deferred_call:
  assumes "search_run Current (search_init d c) evs = Some st"
  shows "length (filter isDebounce (s_timers st)) \<le> 1"
proof -
  have "debounce_tracked (search_init d c)"
    by (simp add: debounce_tracked_def search_init_def)
  from tracked_run[OF this assms] show ?thesis
    by (simp add: debounce_tracked_def)
qed


lemma search_wantsMore_cong:
  "search_render_of st' = search_render_of st \<Longrightarrow> search_wantsMore r st' = search_wantsMore r st"
  by (simp add: search_wantsMore_def)

lemma notification_schedules_one:
  assumes tr: "debounce_tracked st"
      and step: "search_step Current st (CellsRendered t r) = Some st1"
      and want: "search_wantsMore r st"
  shows "debounce_tracked st1 \<and> search_render_of st1 = search_render_of st
       \<and> s_loadMoreCalls st1 = s_loadMoreCalls st
       \<and> (\<exists>tm. filter isDebounce (s_timers st1) = [tm]
              \<and> t_callback tm = DebounceCb (search_render_of st))"
proof -
  define st0 where "st0 = st\<lparr>s_now := t\<rparr>"
  have r0: "search_render_of st0 = search_render_of st"
    by (simp add: st0_def search_render_of_def)
  have tr0: "debounce_tracked st0"
    using tr by (simp add: st0_def debounce_tracked_def)
  have w0: "search_wantsMore r st0"
    using want search_wantsMore_cong[OF r0] by simp
  from step have st1: "st1 = search_onCellsRendered r st0"
    by (auto simp add: search_step_def st0_def split: if_splits)
  from tracked_onCellsRendered[OF tr0, of r] w0 r0 st1
  show ?thesis
    by (simp add: search_onCellsRendered_fields st0_def)
qed

lemma burst_coalesced_current:
  assumes "debounce_tracked st"
      and "rs \<noteq> []"
      and "\<forall>(t, r) \<in> set rs. search_wantsMore r st"
      and "search_run Current st (map (\<lambda>(t, r). CellsRendered t r) rs) = Some st'"
  shows "s_loadMoreCalls st' = s_loadMoreCalls st
       \<and> (\<exists>tm. filter isDebounce (s_timers st') = [tm]
              \<and> t_callback tm = DebounceCb (search_render_of st)
              \<and> (\<forall>st''. s_loadMoreCalls (search_callback_fires (t_callback tm) st'')
                            = s_loadMoreCalls st'' + 1))"
  using assms
proof (induction rs arbitrary: st)
  case Nil
  then show ?case by simp
next
  case (Cons x xs)
  obtain t r where x: "x = (t, r)" by (cases x)
  from Cons.prems x obtain st1 where s1: "search_step Current st (CellsRendered t r) = Some st1"
    and run: "search_run Current st1 (map (\<lambda>(t, r). CellsRendered t r) xs) = Some st'"
    by (auto split: option.splits)
  from Cons.prems x have w: "search_wantsMore r st" by simp
  from notification_schedules_one[OF Cons.prems(1) s1 w]
  have tr1: "debounce_tracked st1" and r1: "search_render_of st1 = search_render_of st"
    and c1: "s_loadMoreCalls st1 = s_loadMoreCalls st"
    and one: "\<exists>tm. filter isDebounce (s_timers st1) = [tm]
              \<and> t_callback tm = DebounceCb (search_render_of st)"
    by simp_all
  from w have ok: "r_hasNextPage (search_render_of st) \<and> \<not> r_isLoadingMore (search_render_of st)"
    by (simp add: search_wantsMore_def Let_def)
  show ?case
  proof (cases "xs = []")
    case True
    with run have "st' = st1" by simp
    with c1 one ok show ?thesis
      by (auto simp add: search_callback_fires_def search_loadMoreItems_def
          search_setTimeout_def Let_def)
  next
    case False
    hence ne: "xs \<noteq> []" by simp
    from Cons.prems(3) have "\<forall>(t, r) \<in> set xs. search_wantsMore r st1"
      using search_wantsMore_cong[OF r1] by auto
    from Cons.IH[OF tr1 ne this run] c1 r1 show ?thesis by simp
  qed
qed

text \<open>
  Claim C5: when the deferred call fires it re-checks \<open>hasNextPage\<close> and the in-flight
  flag with their values at fire time, requests more only if both allow it, and the
  trigger is idle afterwards.  The code breaks the first part: the deferred call tests
  the \<open>hasNextPage\<close> and \<open>isLoadingMore\<close> of the render in which it was scheduled.  Search grid: a call is
  scheduled at 0 ms on 40 items; at 50 ms the source becomes empty, so nothing is left
  to reveal; at 150 ms the call fires and still invokes \<open>loadMoreItems\<close>, which sets
  \<open>isLoadingMore\<close>.  Catalogue grid: a call is scheduled at 0 ms; at 50 ms the parent
  reports a load in flight; at 150 ms the call, if no notification has cancelled it,
  fires and still invokes the remote fetch callback.  In both the timer is gone
  afterwards.
\<close>

theorem deferred_call_uses_stale_render:
  "search_run Current (search_init (replicate 40 (0::nat)) 4)
       [CellsRendered 0 2, SourceChange 50 []]
     = Some \<lparr>s_data = [], s_columnCount = 4, s_visibleItemCount = 12,
             s_isLoadingMore = False, s_debounceRef = Some 1,
             s_timers = [\<lparr>t_id = 1, t_deadline = 150,
                 t_callback = DebounceCb \<lparr>r_isLoadingMore = False, r_hasNextPage = True,
                    r_totalItemCount = 40, r_displayItemCount = 12, r_columnCount = 4\<rparr>\<rparr>],
             s_nextTimerId = 2, s_now = 50, s_loadMoreCalls = 0\<rparr>
   \<and> \<not> r_hasNextPage (search_render_of
          \<lparr>s_data = ([] :: nat list), s_columnCount = 4, s_visibleItemCount = 12,
             s_isLoadingMore = False, s_debounceRef = Some 1,
             s_timers = [\<lparr>t_id = 1, t_deadline = 150,
                 t_callback = DebounceCb \<lparr>r_isLoadingMore = False, r_hasNextPage = True,
                    r_totalItemCount = 40, r_displayItemCount = 12, r_columnCount = 4\<rparr>\<rparr>],
             s_nextTimerId = 2, s_now = 50, s_loadMoreCalls = 0\<rparr>)
   \<and> search_step Current
          \<lparr>s_data = ([] :: nat list), s_columnCount = 4, s_visibleItemCount = 12,
             s_isLoadingMore = False, s_debounceRef = Some 1,
             s_timers = [\<lparr>t_id = 1, t_deadline = 150,
                 t_callback = DebounceCb \<lparr>r_isLoadingMore = False, r_hasNextPage = True,
                    r_totalItemCount = 40, r_displayItemCount = 12, r_columnCount = 4\<rparr>\<rparr>],
             s_nextTimerId = 2, s_now = 50, s_loadMoreCalls = 0\<rparr> TimerFires
     = Some \<lparr>s_data = [], s_columnCount = 4, s_visibleItemCount = 12,
             s_isLoadingMore = True, s_debounceRef = Some 1,
             s_timers = [\<lparr>t_id = 2, t_deadline = 250, t_callback = LoadCb 40\<rparr>],
             s_nextTimerId = 3, s_now = 150, s_loadMoreCalls = 1\<rparr>
   \<and> douban_run (douban_init (replicate 16 (0::nat)) False True 4)
       [DoubanCellsRendered 0 3, Props 50 None True True]
     = Some \<lparr>d_doubanData = replicate 16 0, d_isLoadingMore = True, d_hasMore = True,
             d_columnCount = 4, d_visibleItemCount = 16, d_debounceRef = Some 1,
             d_timers = [\<lparr>dt_id = 1, dt_deadline = 150,
                 dt_callback = \<lparr>dr_isLoadingMore = False, dr_hasNextPage = True,
                    dr_displayItemCount = 16, dr_dataLength = 16, dr_hasMore = True,
                    dr_rowCount = Some 4\<rparr>\<rparr>],
             d_nextTimerId = 2, d_now = 50, d_loadMoreCalls = 0, d_onLoadMoreCalls = 0\<rparr>
   \<and> douban_step
          \<lparr>d_doubanData = replicate 16 (0::nat), d_isLoadingMore = True, d_hasMore = True,
             d_columnCount = 4, d_visibleItemCount = 16, d_debounceRef = Some 1,
             d_timers = [\<lparr>dt_id = 1, dt_deadline = 150,
                 dt_callback = \<lparr>dr_isLoadingMore = False, dr_hasNextPage = True,
                    dr_displayItemCount = 16, dr_dataLength = 16, dr_hasMore = True,
                    dr_rowCount = Some 4\<rparr>\<rparr>],
             d_nextTimerId = 2, d_now = 50, d_loadMoreCalls = 0, d_onLoadMoreCalls = 0\<rparr>
          DoubanTimerFires
     = Some \<lparr>d_doubanData = replicate 16 0, d_isLoadingMore = True, d_hasMore = True,
             d_columnCount = 4, d_visibleItemCount = 16, d_debounceRef = Some 1,
             d_timers = [], d_nextTimerId = 2, d_now = 150, d_loadMoreCalls = 1,
             d_onLoadMoreCalls = 1\<rparr>"
  by (simp add: search_defs douban_defs)

lemma deferred_call_ignores_state:
  "r_hasNextPage r \<and> \<not> r_isLoadingMore r \<Longrightarrow>
     s_loadMoreCalls (search_callback_fires (DebounceCb r) st) = s_loadMoreCalls st + 1
     \<and> s_isLoadingMore (search_callback_fires (DebounceCb r) st)"
  by (simp add: search_callback_fires_def search_loadMoreItems_def search_setTimeout_def Let_def)

end
